theory Spec2Isabelle
  imports Main "HOL-Library.Word"
begin

unbundle bit_operations_syntax

section \<open>Data model of the K8ssandraCluster controller\<close>

text \<open>
  The controller in \<^verbatim>\<open>controllers/k8ssandracluster_controller.go\<close> reconciles one
  K8ssandraCluster against the CassandraDatacenter resources of several remote clusters.
  Go structs are records; a nil-able pointer is an option; a Go slice is a list (a nil
  slice and an empty slice both are the empty list); a \<^verbatim>\<open>map[string]string\<close> is a
  partial function. Record fields keep the Go field names; where two Go structs share a
  field name the second one carries a short prefix.
\<close>

text \<open>\<^verbatim>\<open>types.NamespacedName\<close>.\<close>

datatype NamespacedName = NamespacedName (nnNamespace: string) (nnName: string)

text \<open>
  Errors returned by the collaborators. \<^verbatim>\<open>errors.IsNotFound\<close> recognises the not-found
  status; a rejected optimistic-concurrency write is a conflict; \<open>Failure\<close> is any other
  error with its message; \<open>Panic\<close> is a Go run-time panic (nil dereference, index out
  of range), which also ends the pass.
\<close>

datatype Error = NotFound | Conflict | Failure string | Panic string

definition IsNotFound :: "Error \<Rightarrow> bool" where
  "IsNotFound err = (err = NotFound)"

text \<open>\<^verbatim>\<open>ctrl.Result\<close>; \<^verbatim>\<open>time.Duration\<close> counts nanoseconds.\<close>

record Result =
  Requeue :: bool
  RequeueAfter :: int

definition time_Second :: int where
  "time_Second = 1000000000"

definition emptyResult :: Result where
  "emptyResult = \<lparr>Requeue = False, RequeueAfter = 0\<rparr>"

text \<open>
  \<^verbatim>\<open>metav1.ObjectMeta\<close>, with the fields this controller reads or writes and the two
  fields the API server manages for identity and optimistic concurrency.
\<close>

record ObjectMeta =
  Namespace :: string
  Name :: string
  Annotations :: "string \<rightharpoonup> string"
  ResourceVersion :: string
  UID :: string

text \<open>
  The payload types below are only ever copied from a template into a datacenter
  specification; their inner structure is never inspected by the controller.
\<close>

type_synonym ResourceRequirements = "(string \<times> string) list"
type_synonym RawMessage = string
type_synonym Rack = string
type_synonym StorageConfig = string

record NetworkingConfig =
  HostNetwork :: bool

record CassandraDatacenterSpec =
  ClusterName :: string
  Size :: int
  ServerType :: string
  ServerVersion :: string
  Resources :: ResourceRequirements
  Config :: RawMessage
  Racks :: "Rack list"
  StorageConfig :: StorageConfig
  AdditionalSeeds :: "string list"
  Networking :: "NetworkingConfig option"

record CassandraDatacenterStatus =
  CassandraOperatorProgress :: string
  Conditions :: "(string \<times> bool) list"

record CassandraDatacenter =
  ObjectMeta :: ObjectMeta
  Spec :: CassandraDatacenterSpec
  Status :: CassandraDatacenterStatus

definition emptyStatus :: CassandraDatacenterStatus where
  "emptyStatus = \<lparr>CassandraOperatorProgress = [], Conditions = []\<rparr>"

text \<open>The template of one datacenter (\<^verbatim>\<open>api.CassandraDatacenterTemplateSpec\<close>).\<close>

record EmbeddedObjectMeta =
  metaNamespace :: string
  metaName :: string

record CassandraDatacenterTemplateSpec =
  Meta :: EmbeddedObjectMeta
  K8sContext :: string
  tSize :: int
  tServerVersion :: string
  tResources :: ResourceRequirements
  tConfig :: RawMessage
  tRacks :: "Rack list"
  tStorageConfig :: StorageConfig

record Cassandra =
  Cluster :: string
  Datacenters :: "CassandraDatacenterTemplateSpec list"

record K8ssandraClusterSpec =
  K8sContextsSecret :: string
  Cassandra :: "Cassandra option"

record K8ssandraCluster =
  kcObjectMeta :: ObjectMeta
  kcSpec :: K8ssandraClusterSpec

text \<open>\<^verbatim>\<open>corev1.Pod\<close>: the controller reads \<^verbatim>\<open>pod.Status.PodIP\<close> only.\<close>

record PodStatus =
  PodIP :: string

record Pod =
  podName :: string
  podStatus :: PodStatus

text \<open>
  \<^verbatim>\<open>client.MergeFromWithOptions(from, client.MergeFromWithOptimisticLock{})\<close>: a merge
  patch relative to \<open>From\<close>; with the optimistic lock the patch carries the resource
  version of \<open>From\<close> and the server rejects it when the stored version differs.
\<close>

record Patch =
  From :: CassandraDatacenter
  OptimisticLock :: bool

section \<open>Collaborators and the trace of remote calls\<close>

text \<open>
  A remote client is named by a number. Every collaborator call may read and change the
  world \<open>'w\<close> (the clusters, other writers, the network), so each one is a function from
  the world to a result and a new world. They are parameters of the model:
  \<^item> \<open>Client_Get\<close>: the reconciler's own client, fetching the K8ssandraCluster;
  \<^item> \<open>GetClient\<close>: \<^verbatim>\<open>ClientCache.GetClient\<close>; it may answer a nil client without error;
  \<^item> \<open>remoteGet\<close>, \<open>remoteCreate\<close>, \<open>remoteUpdate\<close>, \<open>remotePatch\<close>, \<open>remoteList\<close>:
    the methods of a remote \<^verbatim>\<open>client.Client\<close>; \<open>remoteUpdate\<close> answers the object as the
    server stored it, which the Go client writes back into its argument;
  \<^item> \<open>DatacenterReady\<close>: the readiness predicate \<^verbatim>\<open>cassandra.DatacenterReady\<close>;
  \<^item> \<open>Sum256\<close>: the SHA-256 digest of \<^verbatim>\<open>hash.DeepHashObject\<close>'s rendering of an object.
\<close>

type_synonym ClientId = nat

type_synonym MatchingLabels = "(string \<times> string) list"

record 'w K8ssandraClusterReconciler =
  Client_Get :: "NamespacedName \<Rightarrow> 'w \<Rightarrow> (Error + K8ssandraCluster) \<times> 'w"
  GetClient :: "NamespacedName \<Rightarrow> string \<Rightarrow> string \<Rightarrow> 'w \<Rightarrow> (Error + ClientId option) \<times> 'w"
  remoteGet :: "ClientId \<Rightarrow> NamespacedName \<Rightarrow> 'w \<Rightarrow> (Error + CassandraDatacenter) \<times> 'w"
  remoteCreate :: "ClientId \<Rightarrow> CassandraDatacenter \<Rightarrow> 'w \<Rightarrow> Error option \<times> 'w"
  remoteUpdate :: "ClientId \<Rightarrow> CassandraDatacenter \<Rightarrow> 'w \<Rightarrow> (Error + CassandraDatacenter) \<times> 'w"
  remotePatch :: "ClientId \<Rightarrow> CassandraDatacenter \<Rightarrow> Patch \<Rightarrow> 'w \<Rightarrow> Error option \<times> 'w"
  remoteList :: "ClientId \<Rightarrow> MatchingLabels \<Rightarrow> 'w \<Rightarrow> (Error + Pod list) \<times> 'w"
  DatacenterReady :: "CassandraDatacenter \<Rightarrow> bool"
  Sum256 :: "CassandraDatacenter \<Rightarrow> 8 word list"

text \<open>One remote call with its answer, as the pass made it.\<close>

datatype Event =
    GetEv ClientId NamespacedName "Error + CassandraDatacenter"
  | CreateEv ClientId CassandraDatacenter "Error option"
  | UpdateEv ClientId CassandraDatacenter "Error + CassandraDatacenter"
  | PatchEv ClientId CassandraDatacenter Patch "Error option"
  | ListEv ClientId MatchingLabels "Error + Pod list"

text \<open>The state threaded through a pass: the world and the remote calls made so far.\<close>

record 'w State =
  world :: 'w
  calls :: "Event list"

definition cacheGetClient ::
  "'w K8ssandraClusterReconciler \<Rightarrow> NamespacedName \<Rightarrow> string \<Rightarrow> string \<Rightarrow> 'w State
    \<Rightarrow> (Error + ClientId option) \<times> 'w State" where
  "cacheGetClient r key secret k8sContext st =
     (case GetClient r key secret k8sContext (world st) of
        (res, w) \<Rightarrow> (res, st\<lparr>world := w\<rparr>))"

definition clientGet ::
  "'w K8ssandraClusterReconciler \<Rightarrow> ClientId \<Rightarrow> NamespacedName \<Rightarrow> 'w State
    \<Rightarrow> (Error + CassandraDatacenter) \<times> 'w State" where
  "clientGet r c key st =
     (case remoteGet r c key (world st) of
        (res, w) \<Rightarrow> (res, \<lparr>world = w, calls = calls st @ [GetEv c key res]\<rparr>))"

definition clientCreate ::
  "'w K8ssandraClusterReconciler \<Rightarrow> ClientId \<Rightarrow> CassandraDatacenter \<Rightarrow> 'w State
    \<Rightarrow> Error option \<times> 'w State" where
  "clientCreate r c obj st =
     (case remoteCreate r c obj (world st) of
        (res, w) \<Rightarrow> (res, \<lparr>world = w, calls = calls st @ [CreateEv c obj res]\<rparr>))"

definition clientUpdate ::
  "'w K8ssandraClusterReconciler \<Rightarrow> ClientId \<Rightarrow> CassandraDatacenter \<Rightarrow> 'w State
    \<Rightarrow> (Error + CassandraDatacenter) \<times> 'w State" where
  "clientUpdate r c obj st =
     (case remoteUpdate r c obj (world st) of
        (res, w) \<Rightarrow> (res, \<lparr>world = w, calls = calls st @ [UpdateEv c obj res]\<rparr>))"

definition clientPatch ::
  "'w K8ssandraClusterReconciler \<Rightarrow> ClientId \<Rightarrow> CassandraDatacenter \<Rightarrow> Patch \<Rightarrow> 'w State
    \<Rightarrow> Error option \<times> 'w State" where
  "clientPatch r c obj p st =
     (case remotePatch r c obj p (world st) of
        (res, w) \<Rightarrow> (res, \<lparr>world = w, calls = calls st @ [PatchEv c obj p res]\<rparr>))"

definition clientList ::
  "'w K8ssandraClusterReconciler \<Rightarrow> ClientId \<Rightarrow> MatchingLabels \<Rightarrow> 'w State
    \<Rightarrow> (Error + Pod list) \<times> 'w State" where
  "clientList r c labels st =
     (case remoteList r c labels (world st) of
        (res, w) \<Rightarrow> (res, \<lparr>world = w, calls = calls st @ [ListEv c labels res]\<rparr>))"

section \<open>Desired state and its fingerprint\<close>

definition resourceHashAnnotation :: string where
  "resourceHashAnnotation = ''k8ssandra.io/resource-hash''"

text \<open>\<^verbatim>\<open>cassdcapi.DatacenterLabel\<close>, a constant of the cass-operator API.\<close>

definition DatacenterLabel :: string where
  "DatacenterLabel = ''cassandra.datastax.com/datacenter''"

definition newDatacenter ::
  "string \<Rightarrow> string \<Rightarrow> CassandraDatacenterTemplateSpec \<Rightarrow> string list \<Rightarrow> CassandraDatacenter" where
  "newDatacenter k8ssandraNamespace cluster template additionalSeeds =
     (let namespace = (if length (metaNamespace (Meta template)) = 0
                       then k8ssandraNamespace else metaNamespace (Meta template))
      in \<lparr>ObjectMeta = \<lparr>Namespace = namespace,
                        Name = metaName (Meta template),
                        Annotations = Map.empty,
                        ResourceVersion = [],
                        UID = []\<rparr>,
          Spec = \<lparr>ClusterName = cluster,
                  Size = tSize template,
                  ServerType = ''cassandra'',
                  ServerVersion = tServerVersion template,
                  Resources = tResources template,
                  Config = tConfig template,
                  Racks = tRacks template,
                  StorageConfig = tStorageConfig template,
                  AdditionalSeeds = additionalSeeds,
                  Networking = Some \<lparr>HostNetwork = True\<rparr>\<rparr>,
          Status = emptyStatus\<rparr>)"

text \<open>
  \<^verbatim>\<open>base64.StdEncoding.EncodeToString\<close>: three bytes become four characters of the
  standard alphabet; a last group of one or two bytes is padded with \<open>=\<close>.
\<close>

definition encodeStd :: string where
  "encodeStd = ''ABCDEFGHIJKLMNOPQRSTUVWXYZabcdefghijklmnopqrstuvwxyz0123456789+/''"

definition enc :: "8 word \<Rightarrow> char" where
  "enc v = encodeStd ! unat (v AND 63)"

fun EncodeToString :: "8 word list \<Rightarrow> string" where
  "EncodeToString [] = []"
| "EncodeToString [a] =
     [enc (drop_bit 2 a), enc (push_bit 4 (a AND 3)), CHR ''='', CHR ''='']"
| "EncodeToString [a, b] =
     [enc (drop_bit 2 a), enc (push_bit 4 (a AND 3) OR drop_bit 4 b),
      enc (push_bit 2 (b AND 15)), CHR ''='']"
| "EncodeToString (a # b # c # rest) =
     [enc (drop_bit 2 a), enc (push_bit 4 (a AND 3) OR drop_bit 4 b),
      enc (push_bit 2 (b AND 15) OR drop_bit 6 c), enc (c AND 63)] @ EncodeToString rest"

definition deepHashString :: "'w K8ssandraClusterReconciler \<Rightarrow> CassandraDatacenter \<Rightarrow> string" where
  "deepHashString r obj =
     (let hashBytes = Sum256 r obj;
          b64Hash = EncodeToString hashBytes
      in b64Hash)"

text \<open>
  The generated \<^verbatim>\<open>DeepCopyInto\<close> of cass-operator assigns every field of the receiver
  to the target (\<^verbatim>\<open>*out = *in\<close>, then deep copies of the reference fields): whatever
  the target held before is gone.
\<close>

definition DeepCopyInto :: "CassandraDatacenter \<Rightarrow> CassandraDatacenter \<Rightarrow> CassandraDatacenter" where
  "DeepCopyInto inp out = inp"

section \<open>Seed discovery\<close>

text \<open>The loop of \<^verbatim>\<open>resolveSeedEndpoints\<close> over \<^verbatim>\<open>podList.Items\<close>, with its break.\<close>

fun appendPodIPs :: "string list \<Rightarrow> Pod list \<Rightarrow> string list" where
  "appendPodIPs endpoints [] = endpoints"
| "appendPodIPs endpoints (pod # pods) =
     (let endpoints' = endpoints @ [PodIP (podStatus pod)]
      in if length endpoints' > 2 then endpoints' else appendPodIPs endpoints' pods)"

definition resolveSeedEndpoints ::
  "'w K8ssandraClusterReconciler \<Rightarrow> CassandraDatacenter \<Rightarrow> ClientId \<Rightarrow> 'w State
    \<Rightarrow> (Error + string list) \<times> 'w State" where
  "resolveSeedEndpoints r dc remoteClient st =
     (let labels = [(DatacenterLabel, Name (ObjectMeta dc))]
      in case clientList r remoteClient labels st of
           (Inl err, st1) \<Rightarrow> (Inl err, st1)
         | (Inr podList, st1) \<Rightarrow> (Inr (appendPodIPs [] podList), st1))"

section \<open>Seed propagation\<close>

definition getDatacenterKey ::
  "CassandraDatacenterTemplateSpec \<Rightarrow> NamespacedName \<Rightarrow> NamespacedName" where
  "getDatacenterKey dcTemplate k8ssandraKey =
     (if length (metaNamespace (Meta dcTemplate)) = 0
      then NamespacedName (nnNamespace k8ssandraKey) (metaName (Meta dcTemplate))
      else NamespacedName (metaNamespace (Meta dcTemplate)) (metaName (Meta dcTemplate)))"

text \<open>
  \<^verbatim>\<open>getDatacenterForTemplate\<close> answers the datacenter and its client, or the error. The
  Go function does not check the client for nil before calling \<^verbatim>\<open>Get\<close> on it, and indexes
  the template list directly: both are panics.
\<close>

definition getDatacenterForTemplate ::
  "'w K8ssandraClusterReconciler \<Rightarrow> K8ssandraCluster \<Rightarrow> nat \<Rightarrow> 'w State
    \<Rightarrow> (Error + CassandraDatacenter \<times> ClientId) \<times> 'w State" where
  "getDatacenterForTemplate r k8ssandra idx st =
     (case Cassandra (kcSpec k8ssandra) of
        None \<Rightarrow> (Inl (Panic ''nil pointer dereference''), st)
      | Some cass \<Rightarrow>
          if \<not> idx < length (Datacenters cass) then (Inl (Panic ''index out of range''), st)
          else
            let dcTemplate = Datacenters cass ! idx;
                k8ssandraKey = NamespacedName (Namespace (kcObjectMeta k8ssandra))
                                              (Name (kcObjectMeta k8ssandra))
            in case cacheGetClient r k8ssandraKey (K8sContextsSecret (kcSpec k8ssandra))
                      (K8sContext dcTemplate) st of
                 (Inl err, st1) \<Rightarrow> (Inl err, st1)
               | (Inr None, st1) \<Rightarrow> (Inl (Panic ''nil pointer dereference''), st1)
               | (Inr (Some remoteClient), st1) \<Rightarrow>
                   let dcKey = getDatacenterKey dcTemplate k8ssandraKey
                   in case clientGet r remoteClient dcKey st1 of
                        (Inl err, st2) \<Rightarrow> (Inl err, st2)
                      | (Inr dc, st2) \<Rightarrow> (Inr (dc, remoteClient), st2))"

definition updateAdditionalSeedsForDatacenter ::
  "'w K8ssandraClusterReconciler \<Rightarrow> CassandraDatacenter \<Rightarrow> string list \<Rightarrow> ClientId \<Rightarrow> 'w State
    \<Rightarrow> Error option \<times> 'w State" where
  "updateAdditionalSeedsForDatacenter r dc seeds remoteClient st =
     (let patch = \<lparr>From = dc, OptimisticLock = True\<rparr>;
          dc1 = (if AdditionalSeeds (Spec dc) = []
                 then dc\<lparr>Spec := (Spec dc)\<lparr>AdditionalSeeds := []\<rparr>\<rparr> else dc);
          dc2 = dc1\<lparr>Spec := (Spec dc1)\<lparr>AdditionalSeeds := AdditionalSeeds (Spec dc1) @ seeds\<rparr>\<rparr>
      in clientPatch r remoteClient dc2 patch st)"

function updateAdditionalSeeds ::
  "'w K8ssandraClusterReconciler \<Rightarrow> K8ssandraCluster \<Rightarrow> string list \<Rightarrow> nat \<Rightarrow> nat \<Rightarrow> 'w State
    \<Rightarrow> Error option \<times> 'w State" where
  "updateAdditionalSeeds r k8ssandra seeds i end st =
     (if i < end then
        (case getDatacenterForTemplate r k8ssandra i st of
           (Inl err, st1) \<Rightarrow> (Some err, st1)
         | (Inr (dc, remoteClient), st1) \<Rightarrow>
             (case updateAdditionalSeedsForDatacenter r dc seeds remoteClient st1 of
                (Some err, st2) \<Rightarrow> (Some err, st2)
              | (None, st2) \<Rightarrow> updateAdditionalSeeds r k8ssandra seeds (Suc i) end st2))
      else (None, st))"
  by pat_completeness auto
termination
  by (relation "measure (\<lambda>(r, k8ssandra, seeds, i, end, st). end - i)") auto

section \<open>The reconciliation pass\<close>

text \<open>What one turn of the loop over the templates decides: go on, or return.\<close>

datatype Step = Continue "string list" | Return Result "Error option"

text \<open>
  The body of the loop of \<^verbatim>\<open>Reconcile\<close> for the template at index \<open>i\<close>, with the seeds
  gathered so far.
\<close>

definition reconcileDatacenter ::
  "'w K8ssandraClusterReconciler \<Rightarrow> NamespacedName \<Rightarrow> K8ssandraCluster \<Rightarrow> Cassandra \<Rightarrow> nat
    \<Rightarrow> CassandraDatacenterTemplateSpec \<Rightarrow> string list \<Rightarrow> 'w State \<Rightarrow> Step \<times> 'w State" where
  "reconcileDatacenter r req k8ssandra cass i template seeds st =
     (let desired0 = newDatacenter (nnNamespace req) (Cluster cass) template seeds;
          dcKey = NamespacedName (Namespace (ObjectMeta desired0)) (Name (ObjectMeta desired0));
          desiredHash = deepHashString r desired0;
          desired = desired0\<lparr>ObjectMeta := (ObjectMeta desired0)
                      \<lparr>Annotations := (Annotations (ObjectMeta desired0))
                                        (resourceHashAnnotation \<mapsto> desiredHash)\<rparr>\<rparr>
      in case cacheGetClient r req (K8sContextsSecret (kcSpec k8ssandra)) (K8sContext template) st of
           (Inl err, st1) \<Rightarrow> (Return emptyResult (Some err), st1)
         | (Inr None, st1) \<Rightarrow>
             (Return emptyResult (Some (Failure ''remoteClient cannot be nil'')), st1)
         | (Inr (Some remoteClient), st1) \<Rightarrow>
             (case clientGet r remoteClient dcKey st1 of
                (Inr actual, st2) \<Rightarrow>
                  (case (if \<not> (Annotations (ObjectMeta actual) resourceHashAnnotation
                                = Some desiredHash)
                         then clientUpdate r remoteClient (DeepCopyInto desired actual) st2
                         else (Inr actual, st2)) of
                     (Inl err, st3) \<Rightarrow> (Return emptyResult (Some err), st3)
                   | (Inr actual', st3) \<Rightarrow>
                       if \<not> DatacenterReady r actual'
                       then (Return (emptyResult\<lparr>RequeueAfter := 15 * time_Second\<rparr>) None, st3)
                       else
                         (case resolveSeedEndpoints r actual' remoteClient st3 of
                            (Inl err, st4) \<Rightarrow> (Return emptyResult (Some err), st4)
                          | (Inr endpoints, st4) \<Rightarrow>
                              let seeds' = seeds @ endpoints
                              in case updateAdditionalSeeds r k8ssandra seeds' 0 i st4 of
                                   (Some err, st5) \<Rightarrow> (Return emptyResult (Some err), st5)
                                 | (None, st5) \<Rightarrow> (Continue seeds', st5)))
              | (Inl err, st2) \<Rightarrow>
                  if IsNotFound err then
                    (case clientCreate r remoteClient desired st2 of
                       (Some err', st3) \<Rightarrow> (Return emptyResult (Some err'), st3)
                     | (None, st3) \<Rightarrow>
                         (Return (emptyResult\<lparr>RequeueAfter := 15 * time_Second\<rparr>) None, st3))
                  else (Return emptyResult (Some err), st2)))"

text \<open>
  The loop \<^verbatim>\<open>for i, template := range k8ssandra.Spec.Cassandra.Datacenters\<close>, from index
  \<open>i\<close> on; after the last template the pass is finished.
\<close>

fun reconcileDatacenters ::
  "'w K8ssandraClusterReconciler \<Rightarrow> NamespacedName \<Rightarrow> K8ssandraCluster \<Rightarrow> Cassandra \<Rightarrow> nat
    \<Rightarrow> string list \<Rightarrow> CassandraDatacenterTemplateSpec list \<Rightarrow> 'w State
    \<Rightarrow> (Result \<times> Error option) \<times> 'w State" where
  "reconcileDatacenters r req k8ssandra cass i seeds [] st = ((emptyResult, None), st)"
| "reconcileDatacenters r req k8ssandra cass i seeds (template # templates) st =
     (case reconcileDatacenter r req k8ssandra cass i template seeds st of
        (Return res err, st1) \<Rightarrow> ((res, err), st1)
      | (Continue seeds', st1) \<Rightarrow>
          reconcileDatacenters r req k8ssandra cass (Suc i) seeds' templates st1)"

definition Reconcile ::
  "'w K8ssandraClusterReconciler \<Rightarrow> NamespacedName \<Rightarrow> 'w
    \<Rightarrow> (Result \<times> Error option) \<times> 'w State" where
  "Reconcile r req w =
     (case Client_Get r req w of
        (Inl err, w1) \<Rightarrow>
          if IsNotFound err then ((emptyResult, None), \<lparr>world = w1, calls = []\<rparr>)
          else ((emptyResult\<lparr>RequeueAfter := 10 * time_Second\<rparr>, Some err),
                \<lparr>world = w1, calls = []\<rparr>)
      | (Inr k8ssandra, w1) \<Rightarrow>
          (case Cassandra (kcSpec k8ssandra) of
             Some cass \<Rightarrow>
               reconcileDatacenters r req k8ssandra cass 0 [] (Datacenters cass)
                 \<lparr>world = w1, calls = []\<rparr>
           | None \<Rightarrow> ((emptyResult, None), \<lparr>world = w1, calls = []\<rparr>)))"

section \<open>Notions used to state the properties\<close>

text \<open>
  The desired form of a datacenter as the pass writes it: the resource built by
  \<^verbatim>\<open>newDatacenter\<close> with its fingerprint stored under the hash annotation.
\<close>

definition desiredDatacenter ::
  "'w K8ssandraClusterReconciler \<Rightarrow> NamespacedName \<Rightarrow> Cassandra
    \<Rightarrow> CassandraDatacenterTemplateSpec \<Rightarrow> string list \<Rightarrow> CassandraDatacenter" where
  "desiredDatacenter r req cass template seeds =
     (let desired = newDatacenter (nnNamespace req) (Cluster cass) template seeds;
          desiredHash = deepHashString r desired
      in desired\<lparr>ObjectMeta := (ObjectMeta desired)
           \<lparr>Annotations := (Annotations (ObjectMeta desired))
                             (resourceHashAnnotation \<mapsto> desiredHash)\<rparr>\<rparr>)"


definition addSeeds :: "CassandraDatacenter \<Rightarrow> string list \<Rightarrow> CassandraDatacenter" where
  "addSeeds dc seeds = dc\<lparr>Spec := (Spec dc)\<lparr>AdditionalSeeds := AdditionalSeeds (Spec dc) @ seeds\<rparr>\<rparr>"



text \<open>
  Notions on the trace of remote calls. A fetch or a patch is what seed propagation
  issues. A datacenter has converged on a client when it was fetched with a fresh
  fingerprint, or fetched with a stale one and then updated successfully; \<open>actual'\<close> is
  the resource the pass holds afterwards. \<open>eventsFrom P pre evs\<close> says that every event
  of \<open>evs\<close> satisfies \<open>P\<close> given the calls made before it, \<open>pre\<close> being those made
  before \<open>evs\<close>.
\<close>

fun getOrPatch :: "Event \<Rightarrow> bool" where
  "getOrPatch (GetEv c key a) = True"
| "getOrPatch (PatchEv c obj p e) = True"
| "getOrPatch _ = False"

text \<open>The calls that write a whole resource: \<^verbatim>\<open>Update\<close> and \<^verbatim>\<open>Create\<close>.\<close>

fun isUpdateOrCreate :: "Event \<Rightarrow> bool" where
  "isUpdateOrCreate (UpdateEv c obj a) = True"
| "isUpdateOrCreate (CreateEv c obj e) = True"
| "isUpdateOrCreate _ = False"

definition converged ::
  "ClientId \<Rightarrow> NamespacedName \<Rightarrow> CassandraDatacenter \<Rightarrow> CassandraDatacenter \<Rightarrow> Event list \<Rightarrow> bool" where
  "converged c key desired actual' pre =
     ((\<exists>actual. pre = [GetEv c key (Inr actual)]
          \<and> Annotations (ObjectMeta actual) resourceHashAnnotation
              = Annotations (ObjectMeta desired) resourceHashAnnotation
          \<and> actual' = actual)
    \<or> (\<exists>actual. pre = [GetEv c key (Inr actual), UpdateEv c desired (Inr actual')]
          \<and> Annotations (ObjectMeta actual) resourceHashAnnotation
              \<noteq> Annotations (ObjectMeta desired) resourceHashAnnotation))"

fun eventsFrom :: "(Event list \<Rightarrow> Event \<Rightarrow> bool) \<Rightarrow> Event list \<Rightarrow> Event list \<Rightarrow> bool" where
  "eventsFrom P pre [] = True"
| "eventsFrom P pre (ev # evs) = (P pre ev \<and> eventsFrom P (pre @ [ev]) evs)"

text \<open>
  A write of a whole datacenter is justified by the call just before it: an update by a
  fetch on the same client, under the key of the written object, that answered a
  resource whose hash annotation is absent or differs from the one written; a create by
  such a fetch that answered not-found. What is written is the desired form of one of
  the templates.
\<close>

definition writeJustified ::
  "'w K8ssandraClusterReconciler \<Rightarrow> NamespacedName \<Rightarrow> Cassandra
    \<Rightarrow> CassandraDatacenterTemplateSpec list \<Rightarrow> Event list \<Rightarrow> Event \<Rightarrow> bool" where
  "writeJustified r req cass templates pre ev =
     ((\<forall>c obj a. ev = UpdateEv c obj a \<longrightarrow>
          pre \<noteq> []
        \<and> (\<exists>actual. last pre = GetEv c (NamespacedName (Namespace (ObjectMeta obj))
                                                        (Name (ObjectMeta obj))) (Inr actual)
              \<and> Annotations (ObjectMeta actual) resourceHashAnnotation
                  \<noteq> Annotations (ObjectMeta obj) resourceHashAnnotation)
        \<and> (\<exists>t \<in> set templates. \<exists>seeds. obj = desiredDatacenter r req cass t seeds))
    \<and> (\<forall>c obj e. ev = CreateEv c obj e \<longrightarrow>
          pre \<noteq> []
        \<and> last pre = GetEv c (NamespacedName (Namespace (ObjectMeta obj))
                                              (Name (ObjectMeta obj))) (Inl NotFound)
        \<and> (\<exists>t \<in> set templates. \<exists>seeds. obj = desiredDatacenter r req cass t seeds)))"

text \<open>
  What a trace tells about seeds. A successful list call discovers the endpoints that
  \<^verbatim>\<open>resolveSeedEndpoints\<close> keeps of its answer; \<open>discovered\<close> gathers them over a trace,
  in order, and \<open>listLabels\<close> gathers the label selectors of all list calls, which name
  the datacenters whose pods were listed. \<open>answersNamed\<close> holds of a call whose answer
  carries the name that was asked for: the datacenter fetched under a key has the name
  of the key, and the datacenter answered by an update has the name of the one sent.
  \<open>seedsFromEarlier\<close> holds of a create or update issued after the calls \<open>pre\<close> when it
  writes the desired form of the template at some position \<open>i\<close> with exactly the seeds
  discovered in \<open>pre\<close>, the list calls of \<open>pre\<close> being those of the datacenters at the
  positions before \<open>i\<close>, in order.
\<close>

fun discoveredBy :: "Event \<Rightarrow> string list" where
  "discoveredBy (ListEv c labels (Inr podList)) = appendPodIPs [] podList"
| "discoveredBy _ = []"

definition discovered :: "Event list \<Rightarrow> string list" where
  "discovered tr = concat (map discoveredBy tr)"

fun listLabelsOf :: "Event \<Rightarrow> MatchingLabels list" where
  "listLabelsOf (ListEv c labels a) = [labels]"
| "listLabelsOf _ = []"

definition listLabels :: "Event list \<Rightarrow> MatchingLabels list" where
  "listLabels tr = concat (map listLabelsOf tr)"

definition datacenterLabels :: "CassandraDatacenterTemplateSpec \<Rightarrow> MatchingLabels" where
  "datacenterLabels t = [(DatacenterLabel, metaName (Meta t))]"

fun answersNamed :: "Event \<Rightarrow> bool" where
  "answersNamed (GetEv c key (Inr obj)) = (Name (ObjectMeta obj) = nnName key)"
| "answersNamed (UpdateEv c obj (Inr obj')) = (Name (ObjectMeta obj') = Name (ObjectMeta obj))"
| "answersNamed _ = True"

definition seedsFromEarlier ::
  "'w K8ssandraClusterReconciler \<Rightarrow> NamespacedName \<Rightarrow> Cassandra
    \<Rightarrow> CassandraDatacenterTemplateSpec list \<Rightarrow> Event list \<Rightarrow> Event \<Rightarrow> bool" where
  "seedsFromEarlier r req cass templates pre ev =
     (\<forall>c obj. ((\<exists>e. ev = CreateEv c obj e) \<or> (\<exists>a. ev = UpdateEv c obj a)) \<longrightarrow>
        (\<exists>i < length templates.
            obj = desiredDatacenter r req cass (templates ! i) (discovered pre)
          \<and> listLabels pre = map datacenterLabels (take i templates)))"

section \<open>Example inputs\<close>

text \<open>
  Concrete collaborators and resources on which the theorems below are instantiated:
  a digest of thirty-two zero bytes, templates without a namespace override, and remote
  clusters whose answers are fixed functions of the request.
\<close>

definition zeroDigest :: "8 word list" where
  "zeroDigest = [0,0,0,0,0,0,0,0, 0,0,0,0,0,0,0,0, 0,0,0,0,0,0,0,0, 0,0,0,0,0,0,0,0]"

definition exTemplate :: "string \<Rightarrow> string \<Rightarrow> CassandraDatacenterTemplateSpec" where
  "exTemplate name ctx =
     \<lparr>Meta = \<lparr>metaNamespace = [], metaName = name\<rparr>, K8sContext = ctx, tSize = 3,
      tServerVersion = ''4.0.0'', tResources = [], tConfig = [], tRacks = [],
      tStorageConfig = []\<rparr>"

definition exCassandra :: "CassandraDatacenterTemplateSpec list \<Rightarrow> Cassandra" where
  "exCassandra ts = \<lparr>Cluster = ''test'', Datacenters = ts\<rparr>"

definition exCluster :: "Cassandra option \<Rightarrow> K8ssandraCluster" where
  "exCluster cass =
     \<lparr>kcObjectMeta = \<lparr>Namespace = ''k8ssandra'', Name = ''test'', Annotations = Map.empty,
                       ResourceVersion = ''7'', UID = ''c''\<rparr>,
      kcSpec = \<lparr>K8sContextsSecret = ''secret'', Cassandra = cass\<rparr>\<rparr>"

definition exReq :: NamespacedName where
  "exReq = NamespacedName ''k8ssandra'' ''test''"

definition exReconciler ::
  "K8ssandraCluster \<Rightarrow> (NamespacedName \<Rightarrow> Error + CassandraDatacenter)
    \<Rightarrow> (MatchingLabels \<Rightarrow> Pod list) \<Rightarrow> unit K8ssandraClusterReconciler" where
  "exReconciler k store pods =
     \<lparr>Client_Get = (\<lambda>key w. (Inr k, w)),
      GetClient = (\<lambda>key secret ctx w. (Inr (Some (length ctx)), w)),
      remoteGet = (\<lambda>c key w. (store key, w)),
      remoteCreate = (\<lambda>c obj w. (None, w)),
      remoteUpdate = (\<lambda>c obj w. (Inr obj, w)),
      remotePatch = (\<lambda>c obj p w. (None, w)),
      remoteList = (\<lambda>c labels w. (Inr (pods labels), w)),
      DatacenterReady = (\<lambda>dc. CassandraOperatorProgress (Status dc) = ''Ready''),
      Sum256 = (\<lambda>obj. zeroDigest)\<rparr>"

definition exActual :: "string \<Rightarrow> string \<Rightarrow> string \<Rightarrow> string \<Rightarrow> CassandraDatacenter" where
  "exActual name version hash progress =
     \<lparr>ObjectMeta = \<lparr>Namespace = ''k8ssandra'', Name = name,
                     Annotations = [resourceHashAnnotation \<mapsto> hash],
                     ResourceVersion = version, UID = ''uid-'' @ name\<rparr>,
      Spec = Spec (newDatacenter ''k8ssandra'' ''test'' (exTemplate name ''a'') []),
      Status = \<lparr>CassandraOperatorProgress = progress, Conditions = []\<rparr>\<rparr>"

definition zeroHash :: string where
  "zeroHash = ''AAAAAAAAAAAAAAAAAAAAAAAAAAAAAAAAAAAAAAAAAAA=''"

text \<open>
  A remote cluster with a concurrent writer: the world is the stored resource version;
  every fetch is followed by a write of somebody else, which changes the version, and a
  patch under the optimistic lock is accepted only at the stored version.
\<close>

definition exContended :: "K8ssandraCluster \<Rightarrow> string K8ssandraClusterReconciler" where
  "exContended k =
     \<lparr>Client_Get = (\<lambda>key w. (Inr k, w)),
      GetClient = (\<lambda>key secret ctx w. (Inr (Some (length ctx)), w)),
      remoteGet = (\<lambda>c key w. (Inr (exActual (nnName key) w zeroHash ''Ready''), w @ ''+'')),
      remoteCreate = (\<lambda>c obj w. (None, w)),
      remoteUpdate = (\<lambda>c obj w. (Inr obj, w)),
      remotePatch = (\<lambda>c obj p w.
         if OptimisticLock p \<and> ResourceVersion (ObjectMeta (From p)) \<noteq> w
         then (Some Conflict, w) else (None, w @ ''+'')),
      remoteList = (\<lambda>c labels w. (Inr [\<lparr>podName = ''pod-0'', podStatus = \<lparr>PodIP = ''10.0.0.7''\<rparr>\<rparr>], w)),
      DatacenterReady = (\<lambda>dc. CassandraOperatorProgress (Status dc) = ''Ready''),
      Sum256 = (\<lambda>obj. zeroDigest)\<rparr>"

definition exPods :: "Pod list" where
  "exPods =
     [\<lparr>podName = ''pod-0'', podStatus = \<lparr>PodIP = ''10.0.0.1''\<rparr>\<rparr>,
      \<lparr>podName = ''pod-1'', podStatus = \<lparr>PodIP = []\<rparr>\<rparr>,
      \<lparr>podName = ''pod-2'', podStatus = \<lparr>PodIP = ''10.0.0.3''\<rparr>\<rparr>,
      \<lparr>podName = ''pod-3'', podStatus = \<lparr>PodIP = ''10.0.0.4''\<rparr>\<rparr>]"

definition exOneDc :: K8ssandraCluster where
  "exOneDc = exCluster (Some (exCassandra [exTemplate ''dc1'' ''a'']))"

definition exTwoDcs :: K8ssandraCluster where
  "exTwoDcs = exCluster (Some (exCassandra [exTemplate ''dc1'' ''a'', exTemplate ''dc2'' ''bb'']))"

definition exAbsent :: "unit K8ssandraClusterReconciler" where
  "exAbsent = exReconciler exOneDc (\<lambda>key. Inl NotFound) (\<lambda>l. [])"

definition exNotReady :: "unit K8ssandraClusterReconciler" where
  "exNotReady = exReconciler exOneDc
      (\<lambda>key. if nnName key = ''dc1'' then Inr (exActual ''dc1'' ''1'' zeroHash ''Updating'')
              else Inl NotFound)
      (\<lambda>l. [])"

definition exStale :: "unit K8ssandraClusterReconciler" where
  "exStale = exReconciler exOneDc
      (\<lambda>key. Inr (exActual (nnName key) ''42'' ''stale'' ''Ready'')) (\<lambda>l. [])"


definition exBothReady :: "unit K8ssandraClusterReconciler" where
  "exBothReady = exReconciler exTwoDcs
      (\<lambda>key. Inr (exActual (nnName key) ''5'' zeroHash ''Ready'')) (\<lambda>l. exPods)"


definition exSecondAbsent :: "unit K8ssandraClusterReconciler" where
  "exSecondAbsent = exReconciler exTwoDcs
      (\<lambda>key. if nnName key = ''dc1'' then Inr (exActual ''dc1'' ''5'' zeroHash ''Ready'')
              else Inl NotFound)
      (\<lambda>l. [\<lparr>podName = ''pod-0'', podStatus = \<lparr>PodIP = ''10.0.0.1''\<rparr>\<rparr>,
             \<lparr>podName = ''pod-1'', podStatus = \<lparr>PodIP = ''10.0.0.2''\<rparr>\<rparr>])"

definition exCreateRefused :: "unit K8ssandraClusterReconciler" where
  "exCreateRefused = exAbsent\<lparr>remoteCreate := (\<lambda>c obj w. (Some (Failure ''forbidden''), w))\<rparr>"






section \<open>Basic facts\<close>

lemma appendPodIPs_take:
  "length acc \<le> 2 \<Longrightarrow>
   appendPodIPs acc pods = acc @ map (\<lambda>p. PodIP (podStatus p)) (take (3 - length acc) pods)"
proof (induction pods arbitrary: acc)
  case Nil
  then show ?case by simp
next
  case (Cons p ps)
  show ?case
  proof (cases "length acc = 2")
    case True
    then show ?thesis by (simp add: Let_def)
  next
    case False
    with Cons.prems have l: "length (acc @ [PodIP (podStatus p)]) \<le> 2" by simp
    have "3 - length acc = Suc (3 - length (acc @ [PodIP (podStatus p)]))"
      using l by simp
    then show ?thesis using Cons.IH [OF l] l by (simp add: Let_def)
  qed
qed

lemma resolveSeedEndpoints_ok:
  assumes "remoteList r c [(DatacenterLabel, Name (ObjectMeta dc))] (world st) = (Inr pods, w)"
  shows "resolveSeedEndpoints r dc c st =
      (Inr (map (\<lambda>p. PodIP (podStatus p)) (take 3 pods)),
       \<lparr>world = w, calls = calls st @ [ListEv c [(DatacenterLabel, Name (ObjectMeta dc))] (Inr pods)]\<rparr>)"
  using assms by (simp add: resolveSeedEndpoints_def clientList_def appendPodIPs_take)

lemma EncodeToString_nonempty: "bs \<noteq> [] \<Longrightarrow> EncodeToString bs \<noteq> []"
  by (cases bs rule: EncodeToString.cases) simp_all

lemma EncodeToString_length: "length (EncodeToString bs) = 4 * ((length bs + 2) div 3)"
proof (induction bs rule: EncodeToString.induct)
  case (4 a b c rest)
  have "(length (a # b # c # rest) + 2) div 3 = Suc ((length rest + 2) div 3)" by simp
  with 4 show ?case by simp
qed simp_all


lemma dcKey_newDatacenter:
  "NamespacedName (Namespace (ObjectMeta (newDatacenter (nnNamespace req) cl t seeds)))
                  (Name (ObjectMeta (newDatacenter (nnNamespace req) cl t seeds)))
   = getDatacenterKey t req"
  by (simp add: newDatacenter_def getDatacenterKey_def Let_def)

lemma desiredDatacenter_hash:
  "Annotations (ObjectMeta (desiredDatacenter r req cass t seeds)) resourceHashAnnotation
   = Some (deepHashString r (newDatacenter (nnNamespace req) (Cluster cass) t seeds))"
  by (simp add: desiredDatacenter_def Let_def)

lemma desiredDatacenter_Spec:
  "Spec (desiredDatacenter r req cass t seeds)
   = Spec (newDatacenter (nnNamespace req) (Cluster cass) t seeds)"
  by (simp add: desiredDatacenter_def Let_def)

lemma desiredDatacenter_key:
  "NamespacedName (Namespace (ObjectMeta (desiredDatacenter r req cass t seeds)))
                  (Name (ObjectMeta (desiredDatacenter r req cass t seeds)))
   = getDatacenterKey t req"
  by (simp add: desiredDatacenter_def newDatacenter_def getDatacenterKey_def Let_def)

text \<open>The loop body, with the desired form and its key named.\<close>

lemma reconcileDatacenter_eq:
  "reconcileDatacenter r req k8ssandra cass i template seeds st =
     (case cacheGetClient r req (K8sContextsSecret (kcSpec k8ssandra)) (K8sContext template) st of
           (Inl err, st1) \<Rightarrow> (Return emptyResult (Some err), st1)
         | (Inr None, st1) \<Rightarrow>
             (Return emptyResult (Some (Failure ''remoteClient cannot be nil'')), st1)
         | (Inr (Some remoteClient), st1) \<Rightarrow>
             (case clientGet r remoteClient (getDatacenterKey template req) st1 of
                (Inr actual, st2) \<Rightarrow>
                  (case (if \<not> (Annotations (ObjectMeta actual) resourceHashAnnotation
                                = Annotations (ObjectMeta (desiredDatacenter r req cass template seeds))
                                     resourceHashAnnotation)
                         then clientUpdate r remoteClient (desiredDatacenter r req cass template seeds) st2
                         else (Inr actual, st2)) of
                     (Inl err, st3) \<Rightarrow> (Return emptyResult (Some err), st3)
                   | (Inr actual', st3) \<Rightarrow>
                       if \<not> DatacenterReady r actual'
                       then (Return (emptyResult\<lparr>RequeueAfter := 15 * time_Second\<rparr>) None, st3)
                       else
                         (case resolveSeedEndpoints r actual' remoteClient st3 of
                            (Inl err, st4) \<Rightarrow> (Return emptyResult (Some err), st4)
                          | (Inr endpoints, st4) \<Rightarrow>
                              (case updateAdditionalSeeds r k8ssandra (seeds @ endpoints) 0 i st4 of
                                   (Some err, st5) \<Rightarrow> (Return emptyResult (Some err), st5)
                                 | (None, st5) \<Rightarrow> (Continue (seeds @ endpoints), st5))))
              | (Inl err, st2) \<Rightarrow>
                  if IsNotFound err then
                    (case clientCreate r remoteClient (desiredDatacenter r req cass template seeds) st2 of
                       (Some err', st3) \<Rightarrow> (Return emptyResult (Some err'), st3)
                     | (None, st3) \<Rightarrow>
                         (Return (emptyResult\<lparr>RequeueAfter := 15 * time_Second\<rparr>) None, st3))
                  else (Return emptyResult (Some err), st2)))"
proof -
  have d: "newDatacenter (nnNamespace req) (Cluster cass) template seeds
      \<lparr>ObjectMeta := ObjectMeta (newDatacenter (nnNamespace req) (Cluster cass) template seeds)
          \<lparr>Annotations := (Annotations (ObjectMeta
                (newDatacenter (nnNamespace req) (Cluster cass) template seeds)))
             (resourceHashAnnotation \<mapsto>
                deepHashString r (newDatacenter (nnNamespace req) (Cluster cass) template seeds))\<rparr>\<rparr>
      = desiredDatacenter r req cass template seeds"
    by (simp add: desiredDatacenter_def Let_def)
  show ?thesis
    unfolding reconcileDatacenter_def Let_def dcKey_newDatacenter DeepCopyInto_def d
      desiredDatacenter_hash
    by (rule refl)
qed

lemma zeroDigest_hash: "Sum256 r obj = zeroDigest \<Longrightarrow> deepHashString r obj = zeroHash"
  by (simp add: deepHashString_def zeroDigest_def zeroHash_def enc_def encodeStd_def)

lemma reconcileDatacenter_ready:
  assumes "GetClient r req (K8sContextsSecret (kcSpec k8ssandra)) (K8sContext t) (world st)
             = (Inr (Some c), w1)"
    and "remoteGet r c (getDatacenterKey t req) w1 = (Inr actual, w2)"
    and "(if Annotations (ObjectMeta actual) resourceHashAnnotation
             \<noteq> Annotations (ObjectMeta (desiredDatacenter r req cass t seeds)) resourceHashAnnotation
          then clientUpdate r c (desiredDatacenter r req cass t seeds)
                 \<lparr>world = w2, calls = calls st @ [GetEv c (getDatacenterKey t req) (Inr actual)]\<rparr>
          else (Inr actual,
                 \<lparr>world = w2, calls = calls st @ [GetEv c (getDatacenterKey t req) (Inr actual)]\<rparr>))
         = (Inr actual', st3)"
  shows "reconcileDatacenter r req k8ssandra cass i t seeds st =
          (if \<not> DatacenterReady r actual'
           then (Return (emptyResult\<lparr>RequeueAfter := 15 * time_Second\<rparr>) None, st3)
           else
            (case resolveSeedEndpoints r actual' c st3 of
               (Inl err, st4) \<Rightarrow> (Return emptyResult (Some err), st4)
             | (Inr endpoints, st4) \<Rightarrow>
                (case updateAdditionalSeeds r k8ssandra (seeds @ endpoints) 0 i st4 of
                   (Some err, st5) \<Rightarrow> (Return emptyResult (Some err), st5)
                 | (None, st5) \<Rightarrow> (Continue (seeds @ endpoints), st5))))"
proof -
  have a: "cacheGetClient r req (K8sContextsSecret (kcSpec k8ssandra)) (K8sContext t) st
        = (Inr (Some c), st\<lparr>world := w1\<rparr>)"
    using assms(1) by (simp add: cacheGetClient_def)
  have b: "clientGet r c (getDatacenterKey t req) (st\<lparr>world := w1\<rparr>)
        = (Inr actual, \<lparr>world = w2, calls = calls st @ [GetEv c (getDatacenterKey t req) (Inr actual)]\<rparr>)"
    using assms(2) by (simp add: clientGet_def)
  show ?thesis
    unfolding reconcileDatacenter_eq a b prod.case sum.case option.case assms(3)
    by (rule refl)
qed

lemma reconcileDatacenters_absent:
  assumes "GetClient r req (K8sContextsSecret (kcSpec k8ssandra)) (K8sContext t) (world st)
             = (Inr (Some c), w1)"
    and "remoteGet r c (getDatacenterKey t req) w1 = (Inl NotFound, w2)"
    and "remoteCreate r c (desiredDatacenter r req cass t seeds) w2 = (None, w3)"
  shows "reconcileDatacenters r req k8ssandra cass i seeds (t # ts) st =
           ((\<lparr>Requeue = False, RequeueAfter = 15 * time_Second\<rparr>, None),
            \<lparr>world = w3,
             calls = calls st @ [GetEv c (getDatacenterKey t req) (Inl NotFound),
                                 CreateEv c (desiredDatacenter r req cass t seeds) None]\<rparr>)"
  using assms
  by (simp add: reconcileDatacenter_eq cacheGetClient_def clientGet_def clientCreate_def
        IsNotFound_def emptyResult_def)

text \<open>The loop of \<^verbatim>\<open>updateAdditionalSeeds\<close> is unfolded by hand, one turn at a time.\<close>

declare updateAdditionalSeeds.simps [simp del]

lemma updateAdditionalSeedsForDatacenter_eq:
  "updateAdditionalSeedsForDatacenter r dc seeds c st =
     clientPatch r c (dc\<lparr>Spec := (Spec dc)\<lparr>AdditionalSeeds := AdditionalSeeds (Spec dc) @ seeds\<rparr>\<rparr>)
       \<lparr>From = dc, OptimisticLock = True\<rparr> st"
  by (simp add: updateAdditionalSeedsForDatacenter_def Let_def)

lemma updateAdditionalSeeds_split:
  "i \<le> j \<Longrightarrow> j \<le> e \<Longrightarrow> updateAdditionalSeeds r k s i j st = (None, st')
   \<Longrightarrow> updateAdditionalSeeds r k s i e st = updateAdditionalSeeds r k s j e st'"
proof (induction r k s i j st rule: updateAdditionalSeeds.induct)
  case (1 r k s i j st)
  show ?case
  proof (cases "i < j")
    case False
    with "1.prems" have "i = j" by simp
    with "1.prems"(3) show ?thesis by (simp add: updateAdditionalSeeds.simps [of r k s j j])
  next
    case True
    with "1.prems" have ie: "i < e" by simp
    obtain g st1 where g: "getDatacenterForTemplate r k i st = (g, st1)" by (cases "getDatacenterForTemplate r k i st")
    show ?thesis
    proof (cases g)
      case (Inl err)
      with "1.prems"(3) True g show ?thesis
        by (simp add: updateAdditionalSeeds.simps [of r k s i j])
    next
      case (Inr p)
      obtain dc c where p: "p = (dc, c)" by (cases p)
      obtain u st2 where u: "updateAdditionalSeedsForDatacenter r dc s c st1 = (u, st2)"
        by (cases "updateAdditionalSeedsForDatacenter r dc s c st1")
      show ?thesis
      proof (cases u)
        case (Some err)
        with "1.prems"(3) True g Inr p u show ?thesis
          by (simp add: updateAdditionalSeeds.simps [of r k s i j])
      next
        case None
        from "1.prems"(3) True g Inr p u None
        have rest: "updateAdditionalSeeds r k s (Suc i) j st2 = (None, st')"
          by (simp add: updateAdditionalSeeds.simps [of r k s i j])
        have "updateAdditionalSeeds r k s (Suc i) e st2 = updateAdditionalSeeds r k s j e st'"
          by (rule "1.IH" [OF True g [symmetric] Inr p [symmetric] u [symmetric] None])
            (use True "1.prems"(2) rest in simp_all)
        with ie g Inr p u None show ?thesis
          by (simp add: updateAdditionalSeeds.simps [of r k s i e])
      qed
    qed
  qed
qed

lemma updateAdditionalSeeds_rejected:
  assumes "j < e"
    and "getDatacenterForTemplate r k j st = (Inr (dc, c), st1)"
    and "remotePatch r c (dc\<lparr>Spec := (Spec dc)\<lparr>AdditionalSeeds := AdditionalSeeds (Spec dc) @ s\<rparr>\<rparr>)
           \<lparr>From = dc, OptimisticLock = True\<rparr> (world st1) = (Some err, w2)"
  shows "updateAdditionalSeeds r k s j e st =
           (Some err,
            \<lparr>world = w2,
             calls = calls st1 @
               [PatchEv c (dc\<lparr>Spec := (Spec dc)\<lparr>AdditionalSeeds := AdditionalSeeds (Spec dc) @ s\<rparr>\<rparr>)
                  \<lparr>From = dc, OptimisticLock = True\<rparr> (Some err)]\<rparr>)"
  using assms
  by (simp add: updateAdditionalSeeds.simps [of r k s j e] updateAdditionalSeedsForDatacenter_eq
      clientPatch_def)


lemma updateAdditionalSeedsForDatacenter_calls:
  "updateAdditionalSeedsForDatacenter r dc seeds c st = (u, st2) \<Longrightarrow>
   calls st2 = calls st @ [PatchEv c (addSeeds dc seeds) \<lparr>From = dc, OptimisticLock = True\<rparr> u]"
  by (auto simp: updateAdditionalSeedsForDatacenter_eq clientPatch_def addSeeds_def
      split: prod.splits)






text \<open>The calls of one turn of the loop, case by case.\<close>

lemma updateAdditionalSeeds_getOrPatch:
  "updateAdditionalSeeds r k seeds s e st = (res, st') \<Longrightarrow>
     \<exists>evs. calls st' = calls st @ evs \<and> (\<forall>ev \<in> set evs. getOrPatch ev)"
proof (induction r k seeds s e st arbitrary: res st' rule: updateAdditionalSeeds.induct)
  case (1 r k seeds s e st)
  show ?case
  proof (cases "s < e")
    case False
    with "1.prems" show ?thesis
      by (simp add: updateAdditionalSeeds.simps [of r k seeds s e])
  next
    case True
    obtain g st1 where g: "getDatacenterForTemplate r k s st = (g, st1)"
      by (cases "getDatacenterForTemplate r k s st")
    from g have g1: "\<exists>evs. calls st1 = calls st @ evs \<and> (\<forall>ev \<in> set evs. getOrPatch ev)"
      by (auto simp: getDatacenterForTemplate_def cacheGetClient_def clientGet_def
          Let_def split: if_splits prod.splits sum.splits option.splits)
    show ?thesis
    proof (cases g)
      case (Inl err)
      with "1.prems" True g have "st' = st1"
        by (simp add: updateAdditionalSeeds.simps [of r k seeds s e])
      with g1 show ?thesis by simp
    next
      case (Inr p)
      obtain dc c where p: "p = (dc, c)" by (cases p)
      obtain u st2 where u: "updateAdditionalSeedsForDatacenter r dc seeds c st1 = (u, st2)"
        by (cases "updateAdditionalSeedsForDatacenter r dc seeds c st1")
      from g1 updateAdditionalSeedsForDatacenter_calls [OF u]
      have g2: "\<exists>evs. calls st2 = calls st @ evs \<and> (\<forall>ev \<in> set evs. getOrPatch ev)"
        by auto
      show ?thesis
      proof (cases u)
        case (Some err)
        with "1.prems" True g Inr p u have "st' = st2"
          by (simp add: updateAdditionalSeeds.simps [of r k seeds s e])
        with g2 show ?thesis by simp
      next
        case None
        from "1.prems" True g Inr p u None
        have rest: "updateAdditionalSeeds r k seeds (Suc s) e st2 = (res, st')"
          by (simp add: updateAdditionalSeeds.simps [of r k seeds s e])
        from "1.IH" [OF True g [symmetric] Inr p [symmetric] u [symmetric] None rest] g2
        show ?thesis by (metis Un_iff append.assoc set_append)
      qed
    qed
  qed
qed

lemma resolveSeedEndpoints_calls:
  "resolveSeedEndpoints r dc c st = (l, st4) \<Longrightarrow>
   \<exists>pl. calls st4 = calls st @ [ListEv c [(DatacenterLabel, Name (ObjectMeta dc))] pl]
      \<and> ((\<exists>e. l = Inl e \<and> pl = Inl e)
         \<or> (\<exists>pods. pl = Inr pods \<and> l = Inr (appendPodIPs [] pods)))"
  by (auto simp: resolveSeedEndpoints_def clientList_def Let_def split: prod.splits sum.splits)

lemma reconcileDatacenter_cases [consumes 1, case_names no_client get_failed created
    update_failed not_ready list_failed discovered]:
  assumes run: "reconcileDatacenter r req k cass i t seeds st = (out, st')"
  obtains
    (no_client) "calls st' = calls st" "\<exists>res err. out = Return res err"
  | (get_failed) c e where
      "calls st' = calls st @ [GetEv c (getDatacenterKey t req) (Inl e)]" "e \<noteq> NotFound"
      "\<exists>res err. out = Return res err"
  | (created) c e where
      "calls st' = calls st @ [GetEv c (getDatacenterKey t req) (Inl NotFound),
                               CreateEv c (desiredDatacenter r req cass t seeds) e]"
      "\<exists>res err. out = Return res err"
  | (update_failed) c actual e where
      "calls st' = calls st @ [GetEv c (getDatacenterKey t req) (Inr actual),
                               UpdateEv c (desiredDatacenter r req cass t seeds) (Inl e)]"
      "Annotations (ObjectMeta actual) resourceHashAnnotation
         \<noteq> Annotations (ObjectMeta (desiredDatacenter r req cass t seeds)) resourceHashAnnotation"
      "\<exists>res err. out = Return res err"
  | (not_ready) c actual' pre where
      "converged c (getDatacenterKey t req) (desiredDatacenter r req cass t seeds) actual' pre"
      "calls st' = calls st @ pre" "\<exists>res err. out = Return res err"
  | (list_failed) c actual' pre e where
      "converged c (getDatacenterKey t req) (desiredDatacenter r req cass t seeds) actual' pre"
      "calls st' = calls st @ pre @ [ListEv c [(DatacenterLabel, Name (ObjectMeta actual'))] (Inl e)]"
      "\<exists>res err. out = Return res err"
  | (discovered) c actual' pre pods gp where
      "converged c (getDatacenterKey t req) (desiredDatacenter r req cass t seeds) actual' pre"
      "calls st' = calls st @ pre
          @ ListEv c [(DatacenterLabel, Name (ObjectMeta actual'))] (Inr pods) # gp"
      "\<forall>ev \<in> set gp. getOrPatch ev"
      "(\<exists>res err. out = Return res err) \<or> out = Continue (seeds @ appendPodIPs [] pods)"
proof -
  obtain g st1 where g: "cacheGetClient r req (K8sContextsSecret (kcSpec k)) (K8sContext t) st = (g, st1)"
    by (cases "cacheGetClient r req (K8sContextsSecret (kcSpec k)) (K8sContext t) st")
  then have c1: "calls st1 = calls st"
    by (auto simp: cacheGetClient_def split: prod.splits)
  show thesis
  proof (cases g)
    case (Inl err)
    with run g c1 show ?thesis by (intro no_client) (auto simp: reconcileDatacenter_eq)
  next
    case (Inr copt)
    show ?thesis
    proof (cases copt)
      case None
      with run g c1 Inr show ?thesis by (intro no_client) (auto simp: reconcileDatacenter_eq)
    next
      case (Some c)
      obtain a st2 where a: "clientGet r c (getDatacenterKey t req) st1 = (a, st2)"
        by (cases "clientGet r c (getDatacenterKey t req) st1")
      then have c2: "calls st2 = calls st @ [GetEv c (getDatacenterKey t req) a]"
        using c1 by (auto simp: clientGet_def split: prod.splits)
      show ?thesis
      proof (cases a)
        case (Inl e)
        show ?thesis
        proof (cases "e = NotFound")
          case False
          with run g Inr Some a Inl c2 show ?thesis
            by (intro get_failed [of c e]) (auto simp: reconcileDatacenter_eq IsNotFound_def)
        next
          case True
          obtain u st3 where u: "clientCreate r c (desiredDatacenter r req cass t seeds) st2 = (u, st3)"
            by (cases "clientCreate r c (desiredDatacenter r req cass t seeds) st2")
          then have "calls st3 = calls st2 @ [CreateEv c (desiredDatacenter r req cass t seeds) u]"
            by (auto simp: clientCreate_def split: prod.splits)
          with run g Inr Some a Inl c2 True u show ?thesis
            by (intro created [of c u])
              (auto simp: reconcileDatacenter_eq IsNotFound_def split: option.splits)
        qed
      next
        case (Inr actual)
        note actual = Inr
        let ?d = "desiredDatacenter r req cass t seeds"
        obtain v st3 where v:
          "(if Annotations (ObjectMeta actual) resourceHashAnnotation
               \<noteq> Annotations (ObjectMeta ?d) resourceHashAnnotation
            then clientUpdate r c ?d st2 else (Inr actual, st2)) = (v, st3)"
          by (cases "(if Annotations (ObjectMeta actual) resourceHashAnnotation
               \<noteq> Annotations (ObjectMeta ?d) resourceHashAnnotation
            then clientUpdate r c ?d st2 else (Inr actual, st2))")
        have body: "(case v of
             Inl err \<Rightarrow> (Return emptyResult (Some err), st3)
           | Inr actual' \<Rightarrow>
               if \<not> DatacenterReady r actual'
               then (Return (emptyResult\<lparr>RequeueAfter := 15 * time_Second\<rparr>) None, st3)
               else
                 (case resolveSeedEndpoints r actual' c st3 of
                    (Inl err, st4) \<Rightarrow> (Return emptyResult (Some err), st4)
                  | (Inr endpoints, st4) \<Rightarrow>
                      (case updateAdditionalSeeds r k (seeds @ endpoints) 0 i st4 of
                           (Some err, st5) \<Rightarrow> (Return emptyResult (Some err), st5)
                         | (None, st5) \<Rightarrow> (Continue (seeds @ endpoints), st5)))) = (out, st')"
          using run g \<open>g = Inr copt\<close> Some a actual v
          by (simp add: reconcileDatacenter_eq)
        show ?thesis
        proof (cases v)
          case (Inl e)
          with v have stale: "Annotations (ObjectMeta actual) resourceHashAnnotation
               \<noteq> Annotations (ObjectMeta ?d) resourceHashAnnotation"
            by (auto split: if_splits)
          with v Inl have "calls st3 = calls st2 @ [UpdateEv c ?d (Inl e)]"
            by (auto simp: clientUpdate_def split: prod.splits)
          with body Inl c2 actual stale show ?thesis
            by (intro update_failed [of c actual e]) auto
        next
          case (Inr actual')
          have "\<exists>pre. converged c (getDatacenterKey t req) ?d actual' pre
                  \<and> calls st3 = calls st @ pre"
          proof (cases "Annotations (ObjectMeta actual) resourceHashAnnotation
               \<noteq> Annotations (ObjectMeta ?d) resourceHashAnnotation")
            case True
            with v Inr have "calls st3 = calls st2 @ [UpdateEv c ?d (Inr actual')]"
              by (auto simp: clientUpdate_def split: prod.splits)
            with c2 actual True
            have "converged c (getDatacenterKey t req) ?d actual'
                    [GetEv c (getDatacenterKey t req) (Inr actual), UpdateEv c ?d (Inr actual')]
                \<and> calls st3 = calls st @
                    [GetEv c (getDatacenterKey t req) (Inr actual), UpdateEv c ?d (Inr actual')]"
              by (simp add: converged_def)
            then show ?thesis by blast
          next
            case False
            with v Inr have "actual' = actual" "st3 = st2" by simp_all
            with c2 actual False
            have "converged c (getDatacenterKey t req) ?d actual'
                    [GetEv c (getDatacenterKey t req) (Inr actual)]
                \<and> calls st3 = calls st @ [GetEv c (getDatacenterKey t req) (Inr actual)]"
              by (simp add: converged_def)
            then show ?thesis by blast
          qed
          then obtain pre where pre: "converged c (getDatacenterKey t req) ?d actual' pre"
            "calls st3 = calls st @ pre"
            by blast
          show ?thesis
          proof (cases "DatacenterReady r actual'")
            case False
            with body Inr pre show ?thesis
              by (intro not_ready [of c actual' pre]) auto
          next
            case True
            obtain l st4 where l: "resolveSeedEndpoints r actual' c st3 = (l, st4)"
              by (cases "resolveSeedEndpoints r actual' c st3")
            from resolveSeedEndpoints_calls [OF this] obtain pl where pl:
              "calls st4 = calls st3 @ [ListEv c [(DatacenterLabel, Name (ObjectMeta actual'))] pl]"
              "(\<exists>e. l = Inl e \<and> pl = Inl e) \<or> (\<exists>pods. pl = Inr pods \<and> l = Inr (appendPodIPs [] pods))"
              by blast
            show ?thesis
            proof (cases l)
              case (Inl e)
              with body Inr True l pl pre show ?thesis
                by (intro list_failed [of c actual' pre e]) auto
            next
              case (Inr endpoints)
              with pl obtain pods where pods: "pl = Inr pods" "endpoints = appendPodIPs [] pods"
                by auto
              obtain u st5 where u: "updateAdditionalSeeds r k (seeds @ endpoints) 0 i st4 = (u, st5)"
                by (cases "updateAdditionalSeeds r k (seeds @ endpoints) 0 i st4")
              from updateAdditionalSeeds_getOrPatch [OF u]
              obtain gp where gp: "calls st5 = calls st4 @ gp" "\<forall>ev \<in> set gp. getOrPatch ev"
                by blast
              from body \<open>v = Inr actual'\<close> True l Inr u
              have o: "st' = st5" "(\<exists>res err. out = Return res err) \<or> out = Continue (seeds @ endpoints)"
                by (auto split: option.splits)
              show ?thesis
                using pre pl(1) pods gp o
                by (intro discovered [of c actual' pre pods gp]) auto
            qed
          qed
        qed
      qed
    qed
  qed
qed

text \<open>Properties of every event of a trace.\<close>

lemma eventsFrom_append:
  "eventsFrom P pre (a @ b) = (eventsFrom P pre a \<and> eventsFrom P (pre @ a) b)"
  by (induction a arbitrary: pre) auto

lemma eventsFrom_nth:
  "eventsFrom P pre evs \<Longrightarrow> k < length evs \<Longrightarrow> P (pre @ take k evs) (evs ! k)"
proof (induction evs arbitrary: pre k)
  case Nil
  then show ?case by simp
next
  case (Cons ev evs)
  show ?case
  proof (cases k)
    case 0
    with Cons.prems show ?thesis by simp
  next
    case (Suc n)
    with Cons.prems Cons.IH [of "pre @ [ev]" n] show ?thesis by simp
  qed
qed

lemma eventsFrom_getOrPatch:
  assumes "\<And>pre ev. getOrPatch ev \<Longrightarrow> P pre ev"
  shows "\<forall>ev \<in> set evs. getOrPatch ev \<Longrightarrow> eventsFrom P pre evs"
  using assms by (induction evs arbitrary: pre) auto

text \<open>Evaluating the example collaborators.\<close>

lemma exReconciler_sel:
  "Client_Get (exReconciler k store pods) key w = (Inr k, w)"
  "GetClient (exReconciler k store pods) key secret ctx w = (Inr (Some (length ctx)), w)"
  "remoteGet (exReconciler k store pods) c key w = (store key, w)"
  "remoteCreate (exReconciler k store pods) c obj w = (None, w)"
  "remoteUpdate (exReconciler k store pods) c obj w = (Inr obj, w)"
  "remotePatch (exReconciler k store pods) c obj p w = (None, w)"
  "remoteList (exReconciler k store pods) c labels w = (Inr (pods labels), w)"
  "DatacenterReady (exReconciler k store pods) dc
     = (CassandraOperatorProgress (Status dc) = ''Ready'')"
  "deepHashString (exReconciler k store pods) obj = zeroHash"
  by (simp_all add: exReconciler_def zeroDigest_hash)

lemma exContended_sel:
  "Client_Get (exContended k) key w = (Inr k, w)"
  "GetClient (exContended k) key secret ctx w = (Inr (Some (length ctx)), w)"
  "remoteGet (exContended k) c key w = (Inr (exActual (nnName key) w zeroHash ''Ready''), w @ ''+'')"
  "remoteCreate (exContended k) c obj w = (None, w)"
  "remoteUpdate (exContended k) c obj w = (Inr obj, w)"
  "remotePatch (exContended k) c obj p w =
     (if OptimisticLock p \<and> ResourceVersion (ObjectMeta (From p)) \<noteq> w
      then (Some Conflict, w) else (None, w @ ''+''))"
  "remoteList (exContended k) c labels w
     = (Inr [\<lparr>podName = ''pod-0'', podStatus = \<lparr>PodIP = ''10.0.0.7''\<rparr>\<rparr>], w)"
  "DatacenterReady (exContended k) dc = (CassandraOperatorProgress (Status dc) = ''Ready'')"
  "deepHashString (exContended k) obj = zeroHash"
  by (simp_all add: exContended_def zeroDigest_hash)

lemmas run_defs = Reconcile_def reconcileDatacenter_eq desiredDatacenter_hash cacheGetClient_def
  clientGet_def clientCreate_def clientUpdate_def clientPatch_def clientList_def
  resolveSeedEndpoints_def getDatacenterForTemplate_def updateAdditionalSeedsForDatacenter_eq
  IsNotFound_def emptyResult_def time_Second_def getDatacenterKey_def

lemmas ex_defs = exOneDc_def exTwoDcs_def exCluster_def exCassandra_def exTemplate_def
  exActual_def exReq_def exPods_def

lemma exStale_calls:
  "calls (snd (Reconcile exStale exReq ())) =
     [GetEv 1 (NamespacedName ''k8ssandra'' ''dc1'') (Inr (exActual ''dc1'' ''42'' ''stale'' ''Ready'')),
      UpdateEv 1 (desiredDatacenter exStale exReq (exCassandra [exTemplate ''dc1'' ''a''])
                    (exTemplate ''dc1'' ''a'') [])
        (Inr (desiredDatacenter exStale exReq (exCassandra [exTemplate ''dc1'' ''a''])
                    (exTemplate ''dc1'' ''a'') []))]"
proof -
  have m: "Status (desiredDatacenter r req cass t seeds) = emptyStatus"
    for r :: "unit K8ssandraClusterReconciler" and req cass t seeds
    by (simp add: desiredDatacenter_def newDatacenter_def Let_def)
  have s: "exStale = exReconciler exOneDc
      (\<lambda>key. Inr (exActual (nnName key) ''42'' ''stale'' ''Ready'')) (\<lambda>l. [])"
    by (simp add: exStale_def)
  show ?thesis
    unfolding s
    by (simp add: Reconcile_def reconcileDatacenter_eq desiredDatacenter_hash cacheGetClient_def
        clientGet_def clientUpdate_def exReconciler_sel exOneDc_def exCluster_def exCassandra_def
        exReq_def getDatacenterKey_def m emptyStatus_def zeroHash_def)
      (simp add: exActual_def exTemplate_def)
qed


section \<open>The loop, one turn after another\<close>

text \<open>Every turn of the loop only adds calls to the trace.\<close>

lemma reconcileDatacenter_extends:
  "reconcileDatacenter r req k cass i t seeds st = (out, st1) \<Longrightarrow> \<exists>evs. calls st1 = calls st @ evs"
  by (cases rule: reconcileDatacenter_cases) auto

lemma reconcileDatacenters_extends:
  "reconcileDatacenters r req k cass i seeds ts st = (res, st') \<Longrightarrow> \<exists>evs. calls st' = calls st @ evs"
proof (induction ts arbitrary: i seeds st)
  case Nil
  then show ?case by simp
next
  case (Cons t ts)
  obtain out st1 where b: "reconcileDatacenter r req k cass i t seeds st = (out, st1)"
    by (cases "reconcileDatacenter r req k cass i t seeds st")
  from reconcileDatacenter_extends [OF b] obtain evs where evs: "calls st1 = calls st @ evs" ..
  show ?case
  proof (cases out)
    case (Return x y)
    with Cons.prems b evs show ?thesis by simp
  next
    case (Continue seeds')
    with Cons.prems b
    have "reconcileDatacenters r req k cass (Suc i) seeds' ts st1 = (res, st')" by simp
    from Cons.IH [OF this] evs show ?thesis by auto
  qed
qed

lemma discovered_simps [simp]:
  "discovered [] = []"
  "discovered (a @ b) = discovered a @ discovered b"
  "discovered (ev # evs) = discoveredBy ev @ discovered evs"
  by (simp_all add: discovered_def)

lemma listLabels_simps [simp]:
  "listLabels [] = []"
  "listLabels (a @ b) = listLabels a @ listLabels b"
  "listLabels (ev # evs) = listLabelsOf ev @ listLabels evs"
  by (simp_all add: listLabels_def)

lemma getOrPatch_discovered: "\<forall>ev \<in> set evs. getOrPatch ev \<Longrightarrow> discovered evs = [] \<and> listLabels evs = []"
proof (induction evs)
  case Nil
  then show ?case by simp
next
  case (Cons ev evs)
  then show ?case by (cases ev) simp_all
qed

text \<open>
  A turn that returns never returns the result of a finished pass, and a turn that goes on
  has added to the seeds what its calls discovered. So a loop over the first templates
  of a list that ends with the empty result and no error has processed them all, and
  the pass goes on with the next template from the state it reached.
\<close>

lemma reconcileDatacenter_Return:
  assumes "reconcileDatacenter r req k cass i t seeds st = (Return res err, st1)"
  shows "err \<noteq> None \<or> res = emptyResult\<lparr>RequeueAfter := 15 * time_Second\<rparr>"
proof -
  obtain g sa where g: "cacheGetClient r req (K8sContextsSecret (kcSpec k)) (K8sContext t) st = (g, sa)"
    by (cases "cacheGetClient r req (K8sContextsSecret (kcSpec k)) (K8sContext t) st")
  show ?thesis
  proof (cases g)
    case (Inl e)
    with assms g show ?thesis by (auto simp: reconcileDatacenter_eq)
  next
    case (Inr copt)
    show ?thesis
    proof (cases copt)
      case None
      with assms g Inr show ?thesis by (auto simp: reconcileDatacenter_eq)
    next
      case (Some c)
      obtain a sb where a: "clientGet r c (getDatacenterKey t req) sa = (a, sb)"
        by (cases "clientGet r c (getDatacenterKey t req) sa")
      show ?thesis
      proof (cases a)
        case (Inl e)
        with assms g \<open>g = Inr copt\<close> Some a show ?thesis
          by (auto simp: reconcileDatacenter_eq split: if_splits prod.splits option.splits)
      next
        case (Inr actual)
        obtain v sc where v:
          "(if Annotations (ObjectMeta actual) resourceHashAnnotation
               \<noteq> Annotations (ObjectMeta (desiredDatacenter r req cass t seeds)) resourceHashAnnotation
            then clientUpdate r c (desiredDatacenter r req cass t seeds) sb else (Inr actual, sb)) = (v, sc)"
          by (cases "(if Annotations (ObjectMeta actual) resourceHashAnnotation
               \<noteq> Annotations (ObjectMeta (desiredDatacenter r req cass t seeds)) resourceHashAnnotation
            then clientUpdate r c (desiredDatacenter r req cass t seeds) sb else (Inr actual, sb))")
        from assms g \<open>g = Inr copt\<close> Some a Inr v show ?thesis
          by (auto simp: reconcileDatacenter_eq split: if_splits prod.splits option.splits sum.splits)
      qed
    qed
  qed
qed

lemma reconcileDatacenter_Continue:
  assumes "reconcileDatacenter r req k cass i t seeds st = (Continue seeds', st1)"
  shows "\<exists>evs. calls st1 = calls st @ evs \<and> seeds' = seeds @ discovered evs"
  using assms
proof (cases rule: reconcileDatacenter_cases)
  case (discovered c actual' pre pods gp)
  from discovered(1) have "discovered pre = []"
    by (auto simp: converged_def)
  moreover from discovered(3) have "discovered gp = []"
    by (simp add: getOrPatch_discovered)
  ultimately have "seeds @ discovered (pre @ ListEv c [(DatacenterLabel, Name (ObjectMeta actual'))]
      (Inr pods) # gp) = seeds @ appendPodIPs [] pods"
    by simp
  with discovered(2,4) show ?thesis by auto
qed auto

lemma reconcileDatacenters_append:
  "reconcileDatacenters r req k cass i seeds pre st = ((emptyResult, None), st1) \<Longrightarrow>
   reconcileDatacenters r req k cass i seeds (pre @ rest) st =
     reconcileDatacenters r req k cass (i + length pre)
       (seeds @ discovered (drop (length (calls st)) (calls st1))) rest st1"
proof (induction pre arbitrary: i seeds st)
  case Nil
  then show ?case by simp
next
  case (Cons t pre)
  obtain out sa where b: "reconcileDatacenter r req k cass i t seeds st = (out, sa)"
    by (cases "reconcileDatacenter r req k cass i t seeds st")
  show ?case
  proof (cases out)
    case (Return res err)
    with Cons.prems b have "res = emptyResult" "err = None" by simp_all
    with reconcileDatacenter_Return [of r req k cass i t seeds st res err sa] b Return
    have "emptyResult = emptyResult\<lparr>RequeueAfter := 15 * time_Second\<rparr>" by simp
    then have "RequeueAfter emptyResult = RequeueAfter (emptyResult\<lparr>RequeueAfter := 15 * time_Second\<rparr>)"
      by simp
    then show ?thesis by (simp add: emptyResult_def time_Second_def)
  next
    case (Continue seeds')
    with Cons.prems b
    have rest: "reconcileDatacenters r req k cass (Suc i) seeds' pre sa = ((emptyResult, None), st1)"
      by simp
    from reconcileDatacenter_Continue b Continue
    obtain evs where evs: "calls sa = calls st @ evs" "seeds' = seeds @ discovered evs" by blast
    from reconcileDatacenters_extends [OF rest] obtain evs2 where evs2: "calls st1 = calls sa @ evs2" ..
    have "seeds' @ discovered (drop (length (calls sa)) (calls st1))
        = seeds @ discovered (drop (length (calls st)) (calls st1))"
      using evs evs2 by simp
    with Cons.IH [OF rest] b Continue show ?thesis by simp
  qed
qed

lemma Reconcile_at:
  assumes "Client_Get r req w = (Inr k8ssandra, w1)"
    and "Cassandra (kcSpec k8ssandra) = Some cass"
    and "i < length (Datacenters cass)"
    and "reconcileDatacenters r req k8ssandra cass 0 [] (take i (Datacenters cass))
           \<lparr>world = w1, calls = []\<rparr> = ((emptyResult, None), st)"
  shows "Reconcile r req w =
     reconcileDatacenters r req k8ssandra cass i (discovered (calls st))
       (Datacenters cass ! i # drop (Suc i) (Datacenters cass)) st"
proof -
  have "Reconcile r req w =
      reconcileDatacenters r req k8ssandra cass 0 []
        (take i (Datacenters cass) @ (Datacenters cass ! i # drop (Suc i) (Datacenters cass)))
        \<lparr>world = w1, calls = []\<rparr>"
    using assms(1-3) by (simp add: Reconcile_def Cons_nth_drop_Suc)
  also have "\<dots> = reconcileDatacenters r req k8ssandra cass (0 + length (take i (Datacenters cass)))
       ([] @ discovered (drop (length (calls \<lparr>world = w1, calls = []\<rparr>)) (calls st)))
       (Datacenters cass ! i # drop (Suc i) (Datacenters cass)) st"
    by (rule reconcileDatacenters_append [OF assms(4)])
  finally show ?thesis using assms(3) by simp
qed

text \<open>The pass over two datacenters, the first ready and the second absent.\<close>

lemma exSecondAbsent_calls:
  "calls (snd (Reconcile exSecondAbsent exReq ())) =
     [GetEv 1 (NamespacedName ''k8ssandra'' ''dc1'') (Inr (exActual ''dc1'' ''5'' zeroHash ''Ready'')),
      ListEv 1 [(DatacenterLabel, ''dc1'')]
        (Inr [\<lparr>podName = ''pod-0'', podStatus = \<lparr>PodIP = ''10.0.0.1''\<rparr>\<rparr>,
              \<lparr>podName = ''pod-1'', podStatus = \<lparr>PodIP = ''10.0.0.2''\<rparr>\<rparr>]),
      GetEv 2 (NamespacedName ''k8ssandra'' ''dc2'') (Inl NotFound),
      CreateEv 2 (desiredDatacenter exSecondAbsent exReq
                    (exCassandra [exTemplate ''dc1'' ''a'', exTemplate ''dc2'' ''bb''])
                    (exTemplate ''dc2'' ''bb'') [''10.0.0.1'', ''10.0.0.2'']) None]"
proof -
  have s: "exSecondAbsent = exReconciler exTwoDcs
      (\<lambda>key. if nnName key = ''dc1'' then Inr (exActual ''dc1'' ''5'' zeroHash ''Ready'')
              else Inl NotFound)
      (\<lambda>l. [\<lparr>podName = ''pod-0'', podStatus = \<lparr>PodIP = ''10.0.0.1''\<rparr>\<rparr>,
             \<lparr>podName = ''pod-1'', podStatus = \<lparr>PodIP = ''10.0.0.2''\<rparr>\<rparr>])"
    by (simp add: exSecondAbsent_def)
  show ?thesis
    unfolding s
    by (simp add: Reconcile_def reconcileDatacenter_eq desiredDatacenter_hash cacheGetClient_def
        clientGet_def clientCreate_def clientList_def resolveSeedEndpoints_def IsNotFound_def
        exReconciler_sel exTwoDcs_def exCluster_def exCassandra_def
        exReq_def getDatacenterKey_def updateAdditionalSeeds.simps Let_def)
      (simp add: exActual_def exTemplate_def)
qed

text \<open>The turn of the loop at an absent datacenter, whatever the create call answers.\<close>

lemma reconcileDatacenters_absent_create:
  assumes "GetClient r req (K8sContextsSecret (kcSpec k8ssandra)) (K8sContext t) (world st)
             = (Inr (Some c), w1)"
    and "remoteGet r c (getDatacenterKey t req) w1 = (Inl NotFound, w2)"
    and "remoteCreate r c (desiredDatacenter r req cass t seeds) w2 = (cres, w3)"
  shows "reconcileDatacenters r req k8ssandra cass i seeds (t # ts) st =
           ((case cres of
               None \<Rightarrow> (\<lparr>Requeue = False, RequeueAfter = 15 * time_Second\<rparr>, None)
             | Some err \<Rightarrow> (\<lparr>Requeue = False, RequeueAfter = 0\<rparr>, Some err)),
            \<lparr>world = w3,
             calls = calls st @ [GetEv c (getDatacenterKey t req) (Inl NotFound),
                                 CreateEv c (desiredDatacenter r req cass t seeds) cres]\<rparr>)"
  using assms
  by (cases cres)
    (simp_all add: reconcileDatacenter_eq cacheGetClient_def clientGet_def clientCreate_def
        IsNotFound_def emptyResult_def)

lemma exCreateRefused_sel:
  "Client_Get exCreateRefused key w = (Inr exOneDc, w)"
  "GetClient exCreateRefused key secret ctx w = (Inr (Some (length ctx)), w)"
  "remoteGet exCreateRefused c key w = (Inl NotFound, w)"
  "remoteCreate exCreateRefused c obj w = (Some (Failure ''forbidden''), w)"
  "deepHashString exCreateRefused obj = zeroHash"
proof -
  have "Sum256 exCreateRefused obj = zeroDigest"
    by (simp add: exCreateRefused_def exAbsent_def exReconciler_def)
  then show "deepHashString exCreateRefused obj = zeroHash"
    by (rule zeroDigest_hash)
qed (simp_all add: exCreateRefused_def exAbsent_def exReconciler_sel)




section \<open>A cluster without a Cassandra specification\<close>

text \<open>
  Claim C10. If the fetched K8ssandraCluster has no Cassandra specification, the pass makes
  no remote call at all (the trace of remote calls stays empty, no client is resolved)
  and returns the result of a finished pass: no requeue, no delay, no error.
\<close>

theorem no_cassandra_spec_is_noop:
  assumes "Client_Get r req w = (Inr k8ssandra, w1)"
    and "Cassandra (kcSpec k8ssandra) = None"
  shows "Reconcile r req w =
           ((\<lparr>Requeue = False, RequeueAfter = 0\<rparr>, None), \<lparr>world = w1, calls = []\<rparr>)"
  using assms by (simp add: Reconcile_def emptyResult_def)

theorem no_cassandra_spec_is_noop_witness:
  "Reconcile (exReconciler (exCluster None) (\<lambda>key. Inl NotFound) (\<lambda>l. [])) exReq ()
     = ((\<lparr>Requeue = False, RequeueAfter = 0\<rparr>, None), \<lparr>world = (), calls = []\<rparr>)"
proof -
  have p1: "Client_Get (exReconciler (exCluster None) (\<lambda>key. Inl NotFound) (\<lambda>l. [])) exReq ()
      = (Inr (exCluster None), ())"
    by (simp add: exReconciler_sel)
  have p2: "Cassandra (kcSpec (exCluster None)) = None"
    by (simp add: exCluster_def)
  show ?thesis
    by (rule no_cassandra_spec_is_noop [OF p1 p2])
qed

section \<open>Creating an absent datacenter\<close>

text \<open>
  Claim C6, as the code has it. Let a pass have processed the datacenters before index
  \<open>i\<close> to the end (the loop over the first \<open>i\<close> templates ended with the empty result and
  no error), and let the datacenter of index \<open>i\<close> be absent from its remote cluster: the
  fetch answers not-found. Then the pass calls create on that client for the desired
  resource, built from the template with the seeds discovered so far: its hash
  annotation holds a non-empty digest (the base64 text of the 32-byte SHA-256 sum), its
  size and server version are the template's, host networking is on. That call is the
  last of the pass, so the remaining templates are not processed. When the create is
  accepted the pass returns a requeue delay of 15 seconds, which is positive, and no
  error; when it is refused the pass returns that error and no delay.
\<close>

theorem absent_datacenter_is_created:
  assumes "Client_Get r req w = (Inr k8ssandra, w1)"
    and "Cassandra (kcSpec k8ssandra) = Some cass"
    and "i < length (Datacenters cass)"
    and "reconcileDatacenters r req k8ssandra cass 0 [] (take i (Datacenters cass))
           \<lparr>world = w1, calls = []\<rparr> = ((emptyResult, None), st)"
    and "GetClient r req (K8sContextsSecret (kcSpec k8ssandra)) (K8sContext (Datacenters cass ! i))
           (world st) = (Inr (Some c), w2)"
    and "remoteGet r c (getDatacenterKey (Datacenters cass ! i) req) w2 = (Inl NotFound, w3)"
    and "remoteCreate r c
           (desiredDatacenter r req cass (Datacenters cass ! i) (discovered (calls st))) w3
           = (cres, w4)"
    and "length (Sum256 r (newDatacenter (nnNamespace req) (Cluster cass) (Datacenters cass ! i)
           (discovered (calls st)))) = 32"
  shows "Reconcile r req w =
           ((case cres of
               None \<Rightarrow> (\<lparr>Requeue = False, RequeueAfter = 15 * time_Second\<rparr>, None)
             | Some err \<Rightarrow> (\<lparr>Requeue = False, RequeueAfter = 0\<rparr>, Some err)),
            \<lparr>world = w4,
             calls = calls st @
               [GetEv c (getDatacenterKey (Datacenters cass ! i) req) (Inl NotFound),
                CreateEv c (desiredDatacenter r req cass (Datacenters cass ! i)
                              (discovered (calls st))) cres]\<rparr>)
       \<and> (\<exists>h. h \<noteq> [] \<and>
              Annotations (ObjectMeta (desiredDatacenter r req cass (Datacenters cass ! i)
                (discovered (calls st)))) resourceHashAnnotation = Some h)
       \<and> Size (Spec (desiredDatacenter r req cass (Datacenters cass ! i) (discovered (calls st))))
           = tSize (Datacenters cass ! i)
       \<and> ServerVersion (Spec (desiredDatacenter r req cass (Datacenters cass ! i)
            (discovered (calls st)))) = tServerVersion (Datacenters cass ! i)
       \<and> Networking (Spec (desiredDatacenter r req cass (Datacenters cass ! i)
            (discovered (calls st)))) = Some \<lparr>HostNetwork = True\<rparr>
       \<and> 0 < 15 * time_Second"
proof -
  let ?t = "Datacenters cass ! i"
  let ?seeds = "discovered (calls st)"
  have run: "Reconcile r req w =
           ((case cres of
               None \<Rightarrow> (\<lparr>Requeue = False, RequeueAfter = 15 * time_Second\<rparr>, None)
             | Some err \<Rightarrow> (\<lparr>Requeue = False, RequeueAfter = 0\<rparr>, Some err)),
            \<lparr>world = w4,
             calls = calls st @
               [GetEv c (getDatacenterKey ?t req) (Inl NotFound),
                CreateEv c (desiredDatacenter r req cass ?t ?seeds) cres]\<rparr>)"
    unfolding Reconcile_at [OF assms(1-4)]
    by (rule reconcileDatacenters_absent_create [OF assms(5-7)])
  have "Sum256 r (newDatacenter (nnNamespace req) (Cluster cass) ?t ?seeds) \<noteq> []"
    using assms(8) by auto
  then have h: "deepHashString r (newDatacenter (nnNamespace req) (Cluster cass) ?t ?seeds) \<noteq> []"
    by (simp add: deepHashString_def EncodeToString_nonempty)
  have sp: "Size (Spec (desiredDatacenter r req cass ?t ?seeds)) = tSize ?t
       \<and> ServerVersion (Spec (desiredDatacenter r req cass ?t ?seeds)) = tServerVersion ?t
       \<and> Networking (Spec (desiredDatacenter r req cass ?t ?seeds)) = Some \<lparr>HostNetwork = True\<rparr>"
    by (simp add: desiredDatacenter_Spec newDatacenter_def Let_def)
  show ?thesis using run h sp by (simp add: desiredDatacenter_hash time_Second_def)
qed

theorem absent_datacenter_is_created_witness:
  "Reconcile exSecondAbsent exReq () =
     ((\<lparr>Requeue = False, RequeueAfter = 15000000000\<rparr>, None),
      \<lparr>world = (),
       calls =
         [GetEv 1 (NamespacedName ''k8ssandra'' ''dc1'') (Inr (exActual ''dc1'' ''5'' zeroHash ''Ready'')),
          ListEv 1 [(DatacenterLabel, ''dc1'')]
            (Inr [\<lparr>podName = ''pod-0'', podStatus = \<lparr>PodIP = ''10.0.0.1''\<rparr>\<rparr>,
                  \<lparr>podName = ''pod-1'', podStatus = \<lparr>PodIP = ''10.0.0.2''\<rparr>\<rparr>]),
          GetEv 2 (NamespacedName ''k8ssandra'' ''dc2'') (Inl NotFound),
          CreateEv 2 (desiredDatacenter exSecondAbsent exReq
                        (exCassandra [exTemplate ''dc1'' ''a'', exTemplate ''dc2'' ''bb''])
                        (exTemplate ''dc2'' ''bb'') [''10.0.0.1'', ''10.0.0.2'']) None]\<rparr>)
   \<and> Annotations (ObjectMeta (desiredDatacenter exSecondAbsent exReq
          (exCassandra [exTemplate ''dc1'' ''a'', exTemplate ''dc2'' ''bb''])
          (exTemplate ''dc2'' ''bb'') [''10.0.0.1'', ''10.0.0.2''])) resourceHashAnnotation
        = Some ''AAAAAAAAAAAAAAAAAAAAAAAAAAAAAAAAAAAAAAAAAAA=''
   \<and> Size (Spec (desiredDatacenter exSecondAbsent exReq
          (exCassandra [exTemplate ''dc1'' ''a'', exTemplate ''dc2'' ''bb''])
          (exTemplate ''dc2'' ''bb'') [''10.0.0.1'', ''10.0.0.2''])) = 3
   \<and> ServerVersion (Spec (desiredDatacenter exSecondAbsent exReq
          (exCassandra [exTemplate ''dc1'' ''a'', exTemplate ''dc2'' ''bb''])
          (exTemplate ''dc2'' ''bb'') [''10.0.0.1'', ''10.0.0.2''])) = ''4.0.0''"
proof -
  let ?cass = "exCassandra [exTemplate ''dc1'' ''a'', exTemplate ''dc2'' ''bb'']"
  let ?pods = "[\<lparr>podName = ''pod-0'', podStatus = \<lparr>PodIP = ''10.0.0.1''\<rparr>\<rparr>,
                \<lparr>podName = ''pod-1'', podStatus = \<lparr>PodIP = ''10.0.0.2''\<rparr>\<rparr>]"
  let ?st = "\<lparr>world = (),
       calls =
         [GetEv 1 (NamespacedName ''k8ssandra'' ''dc1'') (Inr (exActual ''dc1'' ''5'' zeroHash ''Ready'')),
          ListEv 1 [(DatacenterLabel, ''dc1'')] (Inr ?pods)]\<rparr>"
  have s: "exSecondAbsent = exReconciler exTwoDcs
      (\<lambda>key. if nnName key = ''dc1'' then Inr (exActual ''dc1'' ''5'' zeroHash ''Ready'')
              else Inl NotFound)
      (\<lambda>l. ?pods)"
    by (simp add: exSecondAbsent_def)
  have d: "discovered (calls ?st) = [''10.0.0.1'', ''10.0.0.2'']"
    by (simp add: Let_def)
  have t: "Datacenters ?cass ! 1 = exTemplate ''dc2'' ''bb''"
    by (simp add: exCassandra_def)
  have p1: "Client_Get exSecondAbsent exReq () = (Inr exTwoDcs, ())"
    by (simp add: s exReconciler_sel)
  have p2: "Cassandra (kcSpec exTwoDcs) = Some ?cass"
    by (simp add: exTwoDcs_def exCluster_def)
  have p3: "1 < length (Datacenters ?cass)"
    by (simp add: exCassandra_def)
  have p4: "reconcileDatacenters exSecondAbsent exReq exTwoDcs ?cass 0 [] (take 1 (Datacenters ?cass))
           \<lparr>world = (), calls = []\<rparr> = ((emptyResult, None), ?st)"
    unfolding s
    by (simp add: reconcileDatacenter_eq desiredDatacenter_hash cacheGetClient_def
        clientGet_def clientList_def resolveSeedEndpoints_def exReconciler_sel exCassandra_def
        exReq_def getDatacenterKey_def updateAdditionalSeeds.simps Let_def)
      (simp add: exActual_def exTemplate_def)
  have p5: "GetClient exSecondAbsent exReq (K8sContextsSecret (kcSpec exTwoDcs))
      (K8sContext (Datacenters ?cass ! 1)) (world ?st) = (Inr (Some 2), ())"
    by (simp add: s exReconciler_sel exCassandra_def exTemplate_def)
  have p6: "remoteGet exSecondAbsent 2 (getDatacenterKey (Datacenters ?cass ! 1) exReq) ()
      = (Inl NotFound, ())"
    by (simp add: s exReconciler_sel exCassandra_def exTemplate_def getDatacenterKey_def)
  have p7: "remoteCreate exSecondAbsent 2
      (desiredDatacenter exSecondAbsent exReq ?cass (Datacenters ?cass ! 1) (discovered (calls ?st))) ()
      = (None, ())"
    by (simp add: s exReconciler_sel)
  have p8: "length (Sum256 exSecondAbsent (newDatacenter (nnNamespace exReq) (Cluster ?cass)
      (Datacenters ?cass ! 1) (discovered (calls ?st)))) = 32"
    by (simp add: s exReconciler_def zeroDigest_def)
  have h: "deepHashString exSecondAbsent obj = ''AAAAAAAAAAAAAAAAAAAAAAAAAAAAAAAAAAAAAAAAAAA=''" for obj
    by (simp add: s exReconciler_sel zeroHash_def)
  from absent_datacenter_is_created [OF p1 p2 p3 p4 p5 p6 p7 p8]
  show ?thesis
    unfolding d t
    by (simp add: getDatacenterKey_def exTemplate_def exReq_def time_Second_def
        desiredDatacenter_hash h)
qed


text \<open>
  The claim as written promises the retry-after result whenever the datacenter is not
  found. On a cluster with one template whose create call is refused, the pass returns
  the error of the create call and no requeue delay.
\<close>

theorem refused_create_returns_error_counterexample:
  "fst (Reconcile exCreateRefused exReq ())
     = (\<lparr>Requeue = False, RequeueAfter = 0\<rparr>, Some (Failure ''forbidden''))
   \<and> calls (snd (Reconcile exCreateRefused exReq ()))
     = [GetEv 1 (NamespacedName ''k8ssandra'' ''dc1'') (Inl NotFound),
        CreateEv 1 (desiredDatacenter exCreateRefused exReq (exCassandra [exTemplate ''dc1'' ''a''])
                      (exTemplate ''dc1'' ''a'') []) (Some (Failure ''forbidden''))]
   \<and> \<not> 0 < RequeueAfter (fst (fst (Reconcile exCreateRefused exReq ())))"
  by (simp add: Reconcile_def reconcileDatacenter_eq cacheGetClient_def clientGet_def
      clientCreate_def IsNotFound_def emptyResult_def exCreateRefused_sel exOneDc_def
      exCluster_def exCassandra_def exTemplate_def exReq_def getDatacenterKey_def)


section \<open>Seed discovery\<close>

text \<open>
  Claim C8. Seed discovery lists the pods carrying the datacenter label with the name of
  the datacenter, on the datacenter's client, and makes no other call. Whatever pod list
  the remote cluster answers, the endpoints returned are the addresses of the first
  three pods of the list, in order, or of all of them when there are fewer: at most
  three, as many as \<open>min 3 n\<close> for \<open>n\<close> pods, each the address of a listed pod, however
  many pods there are.
\<close>

theorem seed_discovery_bounded:
  assumes "remoteList r c [(DatacenterLabel, Name (ObjectMeta dc))] (world st) = (Inr pods, w)"
  shows "resolveSeedEndpoints r dc c st =
             (Inr (map (\<lambda>p. PodIP (podStatus p)) (take 3 pods)),
              \<lparr>world = w,
               calls = calls st @ [ListEv c [(DatacenterLabel, Name (ObjectMeta dc))] (Inr pods)]\<rparr>)
         \<and> length (map (\<lambda>p. PodIP (podStatus p)) (take 3 pods)) \<le> 3
         \<and> length (map (\<lambda>p. PodIP (podStatus p)) (take 3 pods)) = min 3 (length pods)
         \<and> set (map (\<lambda>p. PodIP (podStatus p)) (take 3 pods))
              \<subseteq> (\<lambda>p. PodIP (podStatus p)) ` set pods"
proof -
  have "set (take 3 pods) \<subseteq> set pods" by (rule set_take_subset)
  then have "set (map (\<lambda>p. PodIP (podStatus p)) (take 3 pods))
               \<subseteq> (\<lambda>p. PodIP (podStatus p)) ` set pods"
    by auto
  then show ?thesis
    using resolveSeedEndpoints_ok [OF assms] by (simp add: min_def)
qed

theorem seed_discovery_bounded_witness:
  "resolveSeedEndpoints (exReconciler (exCluster None) (\<lambda>key. Inl NotFound) (\<lambda>l. exPods))
        (exActual ''dc1'' ''1'' zeroHash ''Ready'') 1 \<lparr>world = (), calls = []\<rparr>
       = (Inr [''10.0.0.1'', [], ''10.0.0.3''],
          \<lparr>world = (), calls = [ListEv 1 [(DatacenterLabel, ''dc1'')] (Inr exPods)]\<rparr>)
   \<and> length [''10.0.0.1'', [], ''10.0.0.3''] \<le> (3::nat)
   \<and> length exPods = 4"
proof -
  have p: "remoteList (exReconciler (exCluster None) (\<lambda>key. Inl NotFound) (\<lambda>l. exPods)) 1
      [(DatacenterLabel, Name (ObjectMeta (exActual ''dc1'' ''1'' zeroHash ''Ready'')))]
      (world \<lparr>world = (), calls = []\<rparr>) = (Inr exPods, ())"
    by (simp add: exReconciler_sel)
  have e: "map (\<lambda>p. PodIP (podStatus p)) (take 3 exPods) = [''10.0.0.1'', [], ''10.0.0.3'']"
    by (simp add: exPods_def)
  have n: "Name (ObjectMeta (exActual ''dc1'' ''1'' zeroHash ''Ready'')) = ''dc1''"
    by (simp add: exActual_def)
  from seed_discovery_bounded [OF p, THEN conjunct1]
  show ?thesis
    unfolding e n by (simp add: exPods_def)
qed

text \<open>
  Claim C9. Seed discovery takes the reported address of every pod it keeps, whatever it
  is: the endpoints are exactly the addresses of the first \<open>min 3 n\<close> pods of a list of
  \<open>n\<close>, in the order of the list, and a pod among them that has no address yet
  contributes the empty string.
\<close>

theorem seed_discovery_takes_first_pod_ips:
  assumes "remoteList r c [(DatacenterLabel, Name (ObjectMeta dc))] (world st) = (Inr pods, w)"
  shows "fst (resolveSeedEndpoints r dc c st) =
           Inr (map (\<lambda>p. PodIP (podStatus p)) (take (min 3 (length pods)) pods))
       \<and> (\<forall>p \<in> set (take 3 pods). PodIP (podStatus p) = [] \<longrightarrow>
            (\<exists>endpoints. fst (resolveSeedEndpoints r dc c st) = Inr endpoints
                \<and> [] \<in> set endpoints))"
proof -
  have "take (min 3 (length pods)) pods = take 3 pods" by (simp add: min_def)
  then show ?thesis
    using resolveSeedEndpoints_ok [OF assms] by force
qed

theorem seed_discovery_takes_first_pod_ips_witness:
  "fst (resolveSeedEndpoints (exReconciler (exCluster None) (\<lambda>key. Inl NotFound) (\<lambda>l. exPods))
        (exActual ''dc1'' ''1'' zeroHash ''Ready'') 1 \<lparr>world = (), calls = []\<rparr>)
     = Inr [''10.0.0.1'', [], ''10.0.0.3'']
   \<and> [] \<in> set [''10.0.0.1'', [], ''10.0.0.3'']"
proof -
  have p: "remoteList (exReconciler (exCluster None) (\<lambda>key. Inl NotFound) (\<lambda>l. exPods)) 1
      [(DatacenterLabel, Name (ObjectMeta (exActual ''dc1'' ''1'' zeroHash ''Ready'')))]
      (world \<lparr>world = (), calls = []\<rparr>) = (Inr exPods, ())"
    by (simp add: exReconciler_sel)
  from seed_discovery_takes_first_pod_ips [OF p, THEN conjunct1] show ?thesis
    by (simp add: exPods_def)
qed

section \<open>Waiting for a datacenter that is not ready\<close>

text \<open>
  Claim C7, as the code has it. Let a pass have processed the datacenters before index
  \<open>i\<close> to the end, and let the datacenter of index \<open>i\<close> be found, with a fresh
  fingerprint or with a stale one and its update accepted, and let the readiness
  predicate be false of the resource the pass then holds. Then the pass returns at once
  with no error and a requeue delay of 15 seconds, which is positive; the remaining
  templates are not processed. That delay is the same as the one of any pass that
  creates an absent datacenter with success: the two constants of the code are both
  \<^verbatim>\<open>15 * time.Second\<close>.
\<close>

theorem not_ready_datacenter_requeues:
  assumes "Client_Get r req w = (Inr k8ssandra, w1)"
    and "Cassandra (kcSpec k8ssandra) = Some cass"
    and "i < length (Datacenters cass)"
    and "reconcileDatacenters r req k8ssandra cass 0 [] (take i (Datacenters cass))
           \<lparr>world = w1, calls = []\<rparr> = ((emptyResult, None), st)"
    and "GetClient r req (K8sContextsSecret (kcSpec k8ssandra)) (K8sContext (Datacenters cass ! i))
           (world st) = (Inr (Some c), w2)"
    and "remoteGet r c (getDatacenterKey (Datacenters cass ! i) req) w2 = (Inr actual, w3)"
    and "(if Annotations (ObjectMeta actual) resourceHashAnnotation
             \<noteq> Annotations (ObjectMeta (desiredDatacenter r req cass (Datacenters cass ! i)
                   (discovered (calls st)))) resourceHashAnnotation
          then clientUpdate r c
                 (desiredDatacenter r req cass (Datacenters cass ! i) (discovered (calls st)))
                 \<lparr>world = w3, calls = calls st @
                    [GetEv c (getDatacenterKey (Datacenters cass ! i) req) (Inr actual)]\<rparr>
          else (Inr actual,
                 \<lparr>world = w3, calls = calls st @
                    [GetEv c (getDatacenterKey (Datacenters cass ! i) req) (Inr actual)]\<rparr>))
         = (Inr actual', st3)"
    and "\<not> DatacenterReady r actual'"
    and "Client_Get ra reqa wa = (Inr ka, v1)"
    and "Cassandra (kcSpec ka) = Some cassa"
    and "ia < length (Datacenters cassa)"
    and "reconcileDatacenters ra reqa ka cassa 0 [] (take ia (Datacenters cassa))
           \<lparr>world = v1, calls = []\<rparr> = ((emptyResult, None), sa)"
    and "GetClient ra reqa (K8sContextsSecret (kcSpec ka)) (K8sContext (Datacenters cassa ! ia))
           (world sa) = (Inr (Some ca), v2)"
    and "remoteGet ra ca (getDatacenterKey (Datacenters cassa ! ia) reqa) v2 = (Inl NotFound, v3)"
    and "remoteCreate ra ca
           (desiredDatacenter ra reqa cassa (Datacenters cassa ! ia) (discovered (calls sa))) v3
           = (None, v4)"
  shows "Reconcile r req w = ((\<lparr>Requeue = False, RequeueAfter = 15 * time_Second\<rparr>, None), st3)
       \<and> 0 < 15 * time_Second
       \<and> RequeueAfter (fst (fst (Reconcile r req w)))
           = RequeueAfter (fst (fst (Reconcile ra reqa wa)))"
proof -
  have a: "Reconcile r req w = ((\<lparr>Requeue = False, RequeueAfter = 15 * time_Second\<rparr>, None), st3)"
    unfolding Reconcile_at [OF assms(1-4)]
    using assms(8)
    by (simp add: reconcileDatacenter_ready [OF assms(5-7)] emptyResult_def)
  have b: "Reconcile ra reqa wa =
      ((\<lparr>Requeue = False, RequeueAfter = 15 * time_Second\<rparr>, None),
       \<lparr>world = v4,
        calls = calls sa @
          [GetEv ca (getDatacenterKey (Datacenters cassa ! ia) reqa) (Inl NotFound),
           CreateEv ca (desiredDatacenter ra reqa cassa (Datacenters cassa ! ia)
                          (discovered (calls sa))) None]\<rparr>)"
    unfolding Reconcile_at [OF assms(9-12)]
    using reconcileDatacenters_absent_create [OF assms(13-15)] by simp
  show ?thesis
    unfolding a b by (simp add: time_Second_def)
qed

theorem not_ready_datacenter_requeues_witness:
  "Reconcile exNotReady exReq ()
     = ((\<lparr>Requeue = False, RequeueAfter = 15 * time_Second\<rparr>, None),
        \<lparr>world = (),
         calls = [GetEv 1 (getDatacenterKey (Datacenters (exCassandra [exTemplate ''dc1'' ''a'']) ! 0) exReq)
                    (Inr (exActual ''dc1'' ''1'' zeroHash ''Updating''))]\<rparr>)
   \<and> 0 < 15 * time_Second
   \<and> RequeueAfter (fst (fst (Reconcile exNotReady exReq ())))
      = RequeueAfter (fst (fst (Reconcile exAbsent exReq ())))"
proof -
  let ?cass = "exCassandra [exTemplate ''dc1'' ''a'']"
  let ?st = "\<lparr>world = (), calls = []\<rparr> :: unit State"
  let ?a = "exActual ''dc1'' ''1'' zeroHash ''Updating''"
  have t: "Datacenters ?cass ! 0 = exTemplate ''dc1'' ''a''"
    by (simp add: exCassandra_def)
  have d: "discovered (calls ?st) = []" by simp
  have p1: "Client_Get exNotReady exReq () = (Inr exOneDc, ())"
    by (simp add: exNotReady_def exReconciler_sel)
  have p2: "Cassandra (kcSpec exOneDc) = Some ?cass"
    by (simp add: exOneDc_def exCluster_def)
  have p3: "0 < length (Datacenters ?cass)"
    by (simp add: exCassandra_def)
  have p4: "reconcileDatacenters r exReq exOneDc ?cass 0 [] (take 0 (Datacenters ?cass))
      \<lparr>world = (), calls = []\<rparr> = ((emptyResult, None), ?st)" for r :: "unit K8ssandraClusterReconciler"
    by simp
  have p5: "GetClient exNotReady exReq (K8sContextsSecret (kcSpec exOneDc))
      (K8sContext (Datacenters ?cass ! 0)) (world ?st) = (Inr (Some 1), ())"
    by (simp add: exNotReady_def exReconciler_sel exCassandra_def exTemplate_def)
  have p6: "remoteGet exNotReady 1 (getDatacenterKey (Datacenters ?cass ! 0) exReq) ()
      = (Inr ?a, ())"
    by (simp add: exNotReady_def exReconciler_sel exCassandra_def getDatacenterKey_def exTemplate_def)
  have p7: "(if Annotations (ObjectMeta ?a) resourceHashAnnotation
             \<noteq> Annotations (ObjectMeta (desiredDatacenter exNotReady exReq ?cass
                   (Datacenters ?cass ! 0) (discovered (calls ?st)))) resourceHashAnnotation
          then clientUpdate exNotReady 1
                 (desiredDatacenter exNotReady exReq ?cass (Datacenters ?cass ! 0)
                    (discovered (calls ?st)))
                 \<lparr>world = (), calls = calls ?st @
                    [GetEv 1 (getDatacenterKey (Datacenters ?cass ! 0) exReq) (Inr ?a)]\<rparr>
          else (Inr ?a,
                 \<lparr>world = (), calls = calls ?st @
                    [GetEv 1 (getDatacenterKey (Datacenters ?cass ! 0) exReq) (Inr ?a)]\<rparr>))
         = (Inr ?a,
            \<lparr>world = (),
             calls = [GetEv 1 (getDatacenterKey (Datacenters ?cass ! 0) exReq) (Inr ?a)]\<rparr>)"
    by (simp add: desiredDatacenter_hash exNotReady_def exReconciler_sel exActual_def)
  have p8: "\<not> DatacenterReady exNotReady ?a"
    by (simp add: exNotReady_def exReconciler_sel exActual_def)
  have q1: "Client_Get exAbsent exReq () = (Inr exOneDc, ())"
    by (simp add: exAbsent_def exReconciler_sel)
  have q5: "GetClient exAbsent exReq (K8sContextsSecret (kcSpec exOneDc))
      (K8sContext (Datacenters ?cass ! 0)) (world ?st) = (Inr (Some 1), ())"
    by (simp add: exAbsent_def exReconciler_sel exCassandra_def exTemplate_def)
  have q6: "remoteGet exAbsent 1 (getDatacenterKey (Datacenters ?cass ! 0) exReq) ()
      = (Inl NotFound, ())"
    by (simp add: exAbsent_def exReconciler_sel)
  have q7: "remoteCreate exAbsent 1
      (desiredDatacenter exAbsent exReq ?cass (Datacenters ?cass ! 0) (discovered (calls ?st))) ()
      = (None, ())"
    by (simp add: exAbsent_def exReconciler_sel)
  show ?thesis
    by (rule not_ready_datacenter_requeues [OF p1 p2 p3 p4 p5 p6 p7 p8 q1 p2 p3 p4 q5 q6 q7])
qed


text \<open>
  The claim as written asks for a not-ready delay strictly longer than the delay after a
  create. On a cluster with one template, a pass that finds the datacenter not ready
  and a pass that creates it both return 15 seconds.
\<close>

theorem not_ready_delay_not_longer_counterexample:
  "fst (Reconcile exNotReady exReq ()) = (\<lparr>Requeue = False, RequeueAfter = 15000000000\<rparr>, None)
   \<and> fst (Reconcile exAbsent exReq ()) = (\<lparr>Requeue = False, RequeueAfter = 15000000000\<rparr>, None)
   \<and> \<not> RequeueAfter (fst (fst (Reconcile exAbsent exReq ())))
        < RequeueAfter (fst (fst (Reconcile exNotReady exReq ())))"
proof -
  have a: "fst (Reconcile exNotReady exReq ()) = (\<lparr>Requeue = False, RequeueAfter = 15000000000\<rparr>, None)"
    by (simp add: exNotReady_def run_defs ex_defs exReconciler_sel)
  have b: "fst (Reconcile exAbsent exReq ()) = (\<lparr>Requeue = False, RequeueAfter = 15000000000\<rparr>, None)"
    by (simp add: exAbsent_def run_defs ex_defs exReconciler_sel)
  show ?thesis unfolding a b by simp
qed


section \<open>A rejected seed patch\<close>

text \<open>
  Claim C5. Let the loop stand at the template of index \<open>i\<close>, its datacenter found,
  converged and ready, its seeds discovered, and let seed propagation have patched the
  datacenters before index \<open>j < i\<close>. If the datacenter of index \<open>j\<close> is fetched and the
  patch of its additional seeds is rejected (as it is when its version changed after the
  fetch), then the pass returns that very error with an empty result; the rejected patch
  is the last remote call of the pass, so it is not tried again and no later datacenter
  is touched; and the patch that was sent is conditional on the version that was fetched
  (optimistic lock on, relative to the fetched object), so it cannot overwrite a change
  made in between.
\<close>

theorem rejected_seed_patch_aborts_pass:
  assumes "GetClient r req (K8sContextsSecret (kcSpec k8ssandra)) (K8sContext t) (world st)
             = (Inr (Some c), w1)"
    and "remoteGet r c (getDatacenterKey t req) w1 = (Inr actual, w2)"
    and "(if Annotations (ObjectMeta actual) resourceHashAnnotation
             \<noteq> Annotations (ObjectMeta (desiredDatacenter r req cass t seeds)) resourceHashAnnotation
          then clientUpdate r c (desiredDatacenter r req cass t seeds)
                 \<lparr>world = w2, calls = calls st @ [GetEv c (getDatacenterKey t req) (Inr actual)]\<rparr>
          else (Inr actual,
                 \<lparr>world = w2, calls = calls st @ [GetEv c (getDatacenterKey t req) (Inr actual)]\<rparr>))
         = (Inr actual', st3)"
    and "DatacenterReady r actual'"
    and "resolveSeedEndpoints r actual' c st3 = (Inr endpoints, st4)"
    and "j < i"
    and "updateAdditionalSeeds r k8ssandra (seeds @ endpoints) 0 j st4 = (None, sj)"
    and "getDatacenterForTemplate r k8ssandra j sj = (Inr (dc, cj), sj1)"
    and "remotePatch r cj
           (dc\<lparr>Spec := (Spec dc)\<lparr>AdditionalSeeds := AdditionalSeeds (Spec dc) @ (seeds @ endpoints)\<rparr>\<rparr>)
           \<lparr>From = dc, OptimisticLock = True\<rparr> (world sj1) = (Some err, wj)"
  shows "reconcileDatacenters r req k8ssandra cass i seeds (t # ts) st =
           ((\<lparr>Requeue = False, RequeueAfter = 0\<rparr>, Some err),
            \<lparr>world = wj,
             calls = calls sj1 @
               [PatchEv cj
                  (dc\<lparr>Spec := (Spec dc)\<lparr>AdditionalSeeds :=
                        AdditionalSeeds (Spec dc) @ (seeds @ endpoints)\<rparr>\<rparr>)
                  \<lparr>From = dc, OptimisticLock = True\<rparr> (Some err)]\<rparr>)"
proof -
  have "updateAdditionalSeeds r k8ssandra (seeds @ endpoints) 0 i st4
      = updateAdditionalSeeds r k8ssandra (seeds @ endpoints) j i sj"
    using assms(6,7) by (intro updateAdditionalSeeds_split) simp_all
  also have "\<dots> = (Some err,
            \<lparr>world = wj,
             calls = calls sj1 @
               [PatchEv cj
                  (dc\<lparr>Spec := (Spec dc)\<lparr>AdditionalSeeds :=
                        AdditionalSeeds (Spec dc) @ (seeds @ endpoints)\<rparr>\<rparr>)
                  \<lparr>From = dc, OptimisticLock = True\<rparr> (Some err)]\<rparr>)"
    by (rule updateAdditionalSeeds_rejected [OF assms(6,8,9)])
  finally show ?thesis
    using assms(4,5)
    by (simp add: reconcileDatacenter_ready [OF assms(1-3)] emptyResult_def)
qed

theorem rejected_seed_patch_aborts_pass_witness:
  "reconcileDatacenters (exContended exTwoDcs) exReq exTwoDcs
      (exCassandra [exTemplate ''dc1'' ''a'', exTemplate ''dc2'' ''bb'']) 1 [''10.0.0.6'']
      [exTemplate ''dc2'' ''bb''] \<lparr>world = ''1'', calls = []\<rparr>
   = ((\<lparr>Requeue = False, RequeueAfter = 0\<rparr>, Some Conflict),
      \<lparr>world = ''1++'',
       calls = [GetEv 2 (NamespacedName ''k8ssandra'' ''dc2'')
                  (Inr (exActual ''dc2'' ''1'' zeroHash ''Ready'')),
                ListEv 2 [(DatacenterLabel, ''dc2'')]
                  (Inr [\<lparr>podName = ''pod-0'', podStatus = \<lparr>PodIP = ''10.0.0.7''\<rparr>\<rparr>]),
                GetEv 1 (NamespacedName ''k8ssandra'' ''dc1'')
                  (Inr (exActual ''dc1'' ''1+'' zeroHash ''Ready'')),
                PatchEv 1
                  ((exActual ''dc1'' ''1+'' zeroHash ''Ready'')
                     \<lparr>Spec := (Spec (exActual ''dc1'' ''1+'' zeroHash ''Ready''))
                        \<lparr>AdditionalSeeds := [''10.0.0.6'', ''10.0.0.7'']\<rparr>\<rparr>)
                  \<lparr>From = exActual ''dc1'' ''1+'' zeroHash ''Ready'', OptimisticLock = True\<rparr>
                  (Some Conflict)]\<rparr>)"
proof -
  let ?r = "exContended exTwoDcs"
  let ?cass = "exCassandra [exTemplate ''dc1'' ''a'', exTemplate ''dc2'' ''bb'']"
  let ?t = "exTemplate ''dc2'' ''bb''"
  let ?st = "\<lparr>world = ''1'', calls = []\<rparr> :: string State"
  let ?a2 = "exActual ''dc2'' ''1'' zeroHash ''Ready''"
  let ?a1 = "exActual ''dc1'' ''1+'' zeroHash ''Ready''"
  let ?pods = "[\<lparr>podName = ''pod-0'', podStatus = \<lparr>PodIP = ''10.0.0.7''\<rparr>\<rparr>]"
  let ?st3 = "\<lparr>world = ''1+'', calls = [GetEv 2 (getDatacenterKey ?t exReq) (Inr ?a2)]\<rparr>"
  let ?st4 = "\<lparr>world = ''1+'',
               calls = [GetEv 2 (getDatacenterKey ?t exReq) (Inr ?a2),
                        ListEv 2 [(DatacenterLabel, ''dc2'')] (Inr ?pods)]\<rparr>"
  let ?sj1 = "\<lparr>world = ''1++'',
               calls = [GetEv 2 (getDatacenterKey ?t exReq) (Inr ?a2),
                        ListEv 2 [(DatacenterLabel, ''dc2'')] (Inr ?pods),
                        GetEv 1 (NamespacedName ''k8ssandra'' ''dc1'') (Inr ?a1)]\<rparr>"
  have p1: "GetClient ?r exReq (K8sContextsSecret (kcSpec exTwoDcs)) (K8sContext ?t) (world ?st)
      = (Inr (Some 2), ''1'')"
    by (simp add: exContended_sel exTemplate_def)
  have p2: "remoteGet ?r 2 (getDatacenterKey ?t exReq) ''1'' = (Inr ?a2, ''1+'')"
    by (simp add: exContended_sel getDatacenterKey_def exTemplate_def)
  have p3: "(if Annotations (ObjectMeta ?a2) resourceHashAnnotation
             \<noteq> Annotations (ObjectMeta (desiredDatacenter ?r exReq ?cass ?t [''10.0.0.6'']))
                 resourceHashAnnotation
          then clientUpdate ?r 2 (desiredDatacenter ?r exReq ?cass ?t [''10.0.0.6''])
                 \<lparr>world = ''1+'', calls = calls ?st @ [GetEv 2 (getDatacenterKey ?t exReq) (Inr ?a2)]\<rparr>
          else (Inr ?a2,
                 \<lparr>world = ''1+'', calls = calls ?st @ [GetEv 2 (getDatacenterKey ?t exReq) (Inr ?a2)]\<rparr>))
         = (Inr ?a2, ?st3)"
    by (simp add: desiredDatacenter_hash exContended_sel exActual_def)
  have p4: "DatacenterReady ?r ?a2"
    by (simp add: exContended_sel exActual_def)
  have p5: "resolveSeedEndpoints ?r ?a2 2 ?st3 = (Inr [''10.0.0.7''], ?st4)"
    by (simp add: resolveSeedEndpoints_def clientList_def exContended_sel exActual_def)
  have p6: "(0::nat) < 1" by simp
  have p7: "updateAdditionalSeeds ?r exTwoDcs ([''10.0.0.6''] @ [''10.0.0.7'']) 0 0 ?st4 = (None, ?st4)"
    by (simp add: updateAdditionalSeeds.simps)
  have p8: "getDatacenterForTemplate ?r exTwoDcs 0 ?st4 = (Inr (?a1, 1), ?sj1)"
    by (simp add: getDatacenterForTemplate_def cacheGetClient_def clientGet_def exContended_sel
        exTwoDcs_def exCluster_def exCassandra_def exTemplate_def getDatacenterKey_def Let_def)
  have p9: "remotePatch ?r 1
        (?a1\<lparr>Spec := (Spec ?a1)\<lparr>AdditionalSeeds :=
              AdditionalSeeds (Spec ?a1) @ ([''10.0.0.6''] @ [''10.0.0.7''])\<rparr>\<rparr>)
        \<lparr>From = ?a1, OptimisticLock = True\<rparr> (world ?sj1) = (Some Conflict, ''1++'')"
    by (simp add: exContended_sel exActual_def)
  from rejected_seed_patch_aborts_pass [OF p1 p2 p3 p4 p5 p6 p7 p8 p9, where ts = "[]"]
  show ?thesis
    by (simp add: getDatacenterKey_def exTemplate_def exReq_def exActual_def newDatacenter_def
        Let_def)
qed

section \<open>Updating a stale datacenter\<close>

text \<open>
  Claim C2 asks that the update of a stale datacenter keeps the identity and version
  fields of the actual resource. The code copies the whole desired resource over the
  actual one (\<^verbatim>\<open>desired.DeepCopyInto(actual)\<close>), metadata and status included. On a
  cluster whose datacenter \<open>dc1\<close> is stored at resource version 42 with a stale
  fingerprint, the object handed to \<^verbatim>\<open>Update\<close> has an empty resource version and an
  empty UID.
\<close>

theorem update_drops_resource_version:
  "calls (snd (Reconcile exStale exReq ())) =
     [GetEv 1 (NamespacedName ''k8ssandra'' ''dc1'') (Inr (exActual ''dc1'' ''42'' ''stale'' ''Ready'')),
      UpdateEv 1 (desiredDatacenter exStale exReq (exCassandra [exTemplate ''dc1'' ''a''])
                    (exTemplate ''dc1'' ''a'') [])
        (Inr (desiredDatacenter exStale exReq (exCassandra [exTemplate ''dc1'' ''a''])
                    (exTemplate ''dc1'' ''a'') []))]
   \<and> ResourceVersion (ObjectMeta (exActual ''dc1'' ''42'' ''stale'' ''Ready'')) = ''42''
   \<and> UID (ObjectMeta (exActual ''dc1'' ''42'' ''stale'' ''Ready'')) = ''uid-dc1''
   \<and> ResourceVersion (ObjectMeta (desiredDatacenter exStale exReq
          (exCassandra [exTemplate ''dc1'' ''a'']) (exTemplate ''dc1'' ''a'') [])) = []
   \<and> UID (ObjectMeta (desiredDatacenter exStale exReq
          (exCassandra [exTemplate ''dc1'' ''a'']) (exTemplate ''dc1'' ''a'') [])) = []"
proof -
  have m: "ResourceVersion (ObjectMeta (desiredDatacenter r req cass t seeds)) = []
         \<and> UID (ObjectMeta (desiredDatacenter r req cass t seeds)) = []"
    for r :: "unit K8ssandraClusterReconciler" and req cass t seeds
    by (simp add: desiredDatacenter_def newDatacenter_def Let_def)
  show ?thesis
    using m by (simp add: exStale_calls exActual_def)
qed

section \<open>Seed propagation reaches the earlier datacenters only\<close>






section \<open>When a datacenter is written\<close>

lemma writeJustified_getOrPatch: "getOrPatch ev \<Longrightarrow> writeJustified r req cass templates pre ev"
  by (cases ev) (simp_all add: writeJustified_def)

lemma writeJustified_List [simp]: "writeJustified r req cass templates pre (ListEv c l a)"
  by (simp add: writeJustified_def)

lemma writeJustified_Get [simp]: "writeJustified r req cass templates pre (GetEv c l a)"
  by (simp add: writeJustified_def)

lemma reconcileDatacenter_writes:
  assumes "reconcileDatacenter r req k cass i t seeds st = (out, st1)"
    and "t \<in> set templates"
  shows "\<exists>evs. calls st1 = calls st @ evs
           \<and> eventsFrom (writeJustified r req cass templates) (calls st) evs"
proof -
  have d: "\<exists>ta \<in> set templates. \<exists>seedsa.
      desiredDatacenter r req cass t seeds = desiredDatacenter r req cass ta seedsa"
    using assms(2) by blast
  have conv: "eventsFrom (writeJustified r req cass templates) (calls st) pre"
    if "converged c (getDatacenterKey t req) (desiredDatacenter r req cass t seeds) actual' pre"
    for c actual' pre
    using that by (auto simp: converged_def writeJustified_def desiredDatacenter_key d)
  from assms(1) show ?thesis
proof (cases rule: reconcileDatacenter_cases)
  case no_client
  then show ?thesis by simp
next
  case (get_failed c e)
  then show ?thesis by simp
next
  case (created c e)
  have "eventsFrom (writeJustified r req cass templates) (calls st)
     [GetEv c (getDatacenterKey t req) (Inl NotFound),
      CreateEv c (desiredDatacenter r req cass t seeds) e]"
    by (simp add: writeJustified_def desiredDatacenter_key d)
  with created show ?thesis by blast
next
  case (update_failed c actual e)
  have "eventsFrom (writeJustified r req cass templates) (calls st)
     [GetEv c (getDatacenterKey t req) (Inr actual),
      UpdateEv c (desiredDatacenter r req cass t seeds) (Inl e)]"
    using update_failed(2) by (simp add: writeJustified_def desiredDatacenter_key d)
  with update_failed show ?thesis by blast
next
  case (not_ready c actual' pre)
  have "eventsFrom (writeJustified r req cass templates) (calls st) pre"
    using not_ready(1) by (rule conv)
  with not_ready show ?thesis by blast
next
  case (list_failed c actual' pre e)
  have "eventsFrom (writeJustified r req cass templates) (calls st) pre"
    using list_failed(1) by (rule conv)
  then have "eventsFrom (writeJustified r req cass templates) (calls st)
      (pre @ [ListEv c [(DatacenterLabel, Name (ObjectMeta actual'))] (Inl e)])"
    by (simp add: eventsFrom_append)
  with list_failed show ?thesis by blast
next
  case (discovered c actual' pre pods gp)
  have "eventsFrom (writeJustified r req cass templates) (calls st) pre"
    using discovered(1) by (rule conv)
  moreover have "eventsFrom (writeJustified r req cass templates)
      ((calls st @ pre) @ [ListEv c [(DatacenterLabel, Name (ObjectMeta actual'))] (Inr pods)]) gp"
    using discovered(3) by (intro eventsFrom_getOrPatch writeJustified_getOrPatch)
  ultimately have "eventsFrom (writeJustified r req cass templates) (calls st)
      (pre @ ListEv c [(DatacenterLabel, Name (ObjectMeta actual'))] (Inr pods) # gp)"
    by (simp add: eventsFrom_append)
  with discovered show ?thesis by blast
qed
qed

lemma reconcileDatacenters_writes:
  "reconcileDatacenters r req k cass i seeds ts st = (res, st') \<Longrightarrow> set ts \<subseteq> set templates \<Longrightarrow>
   \<exists>evs. calls st' = calls st @ evs
      \<and> eventsFrom (writeJustified r req cass templates) (calls st) evs"
proof (induction ts arbitrary: i seeds st)
  case Nil
  then show ?case by simp
next
  case (Cons t ts)
  obtain out st1 where b: "reconcileDatacenter r req k cass i t seeds st = (out, st1)"
    by (cases "reconcileDatacenter r req k cass i t seeds st")
  from Cons.prems(2) have t: "t \<in> set templates" by simp
  from reconcileDatacenter_writes [OF b t]
  obtain evs where evs: "calls st1 = calls st @ evs"
    "eventsFrom (writeJustified r req cass templates) (calls st) evs"
    by blast
  show ?case
  proof (cases out)
    case (Return x y)
    with Cons.prems(1) b have "st' = st1" by simp
    with evs show ?thesis by blast
  next
    case (Continue seeds')
    with Cons.prems(1) b
    have "reconcileDatacenters r req k cass (Suc i) seeds' ts st1 = (res, st')" by simp
    from Cons.IH [OF this] Cons.prems(2)
    obtain evs2 where "calls st' = calls st1 @ evs2"
      "eventsFrom (writeJustified r req cass templates) (calls st1) evs2"
      by auto
    with evs have "calls st' = calls st @ (evs @ evs2)
       \<and> eventsFrom (writeJustified r req cass templates) (calls st) (evs @ evs2)"
      by (simp add: eventsFrom_append)
    then show ?thesis by blast
  qed
qed

text \<open>The turn of a datacenter that is fetched with a fresh fingerprint.\<close>

lemma getOrPatch_not_write: "getOrPatch ev \<Longrightarrow> \<not> isUpdateOrCreate ev"
  by (cases ev) simp_all

lemma fresh_fetch_turn:
  assumes "Client_Get r req w = (Inr k8ssandra, w1)"
    and "Cassandra (kcSpec k8ssandra) = Some cass"
    and "i < length (Datacenters cass)"
    and "reconcileDatacenters r req k8ssandra cass 0 [] (take i (Datacenters cass))
           \<lparr>world = w1, calls = []\<rparr> = ((emptyResult, None), st)"
    and "GetClient r req (K8sContextsSecret (kcSpec k8ssandra)) (K8sContext (Datacenters cass ! i))
           (world st) = (Inr (Some c), w2)"
    and "remoteGet r c (getDatacenterKey (Datacenters cass ! i) req) w2 = (Inr actual, w3)"
    and "Annotations (ObjectMeta actual) resourceHashAnnotation
           = Some (deepHashString r (newDatacenter (nnNamespace req) (Cluster cass)
                     (Datacenters cass ! i) (discovered (calls st))))"
  shows "\<exists>evs w5.
           (\<forall>ev \<in> set evs. \<not> isUpdateOrCreate ev)
         \<and> ((\<exists>res err. Reconcile r req w =
                ((res, err),
                 \<lparr>world = w5, calls = calls st @
                    GetEv c (getDatacenterKey (Datacenters cass ! i) req) (Inr actual) # evs\<rparr>))
            \<or> (\<exists>seeds'. Reconcile r req w =
                  reconcileDatacenters r req k8ssandra cass (Suc i) seeds'
                    (drop (Suc i) (Datacenters cass))
                    \<lparr>world = w5, calls = calls st @
                       GetEv c (getDatacenterKey (Datacenters cass ! i) req) (Inr actual) # evs\<rparr>))"
proof -
  let ?t = "Datacenters cass ! i"
  let ?seeds = "discovered (calls st)"
  let ?get = "GetEv c (getDatacenterKey ?t req) (Inr actual)"
  let ?st2 = "\<lparr>world = w3, calls = calls st @ [?get]\<rparr>"
  have upd: "(if Annotations (ObjectMeta actual) resourceHashAnnotation
             \<noteq> Annotations (ObjectMeta (desiredDatacenter r req cass ?t ?seeds)) resourceHashAnnotation
          then clientUpdate r c (desiredDatacenter r req cass ?t ?seeds) ?st2
          else (Inr actual, ?st2))
         = (Inr actual, ?st2)"
    using assms(7) by (simp add: desiredDatacenter_hash)
  note body = reconcileDatacenter_ready [OF assms(5,6) upd, of i]
  note at = Reconcile_at [OF assms(1-4)]
  show ?thesis
  proof (cases "DatacenterReady r actual")
    case False
    with at body have "Reconcile r req w =
        ((emptyResult\<lparr>RequeueAfter := 15 * time_Second\<rparr>, None),
         \<lparr>world = w3, calls = calls st @ ?get # []\<rparr>)"
      by simp
    then show ?thesis
      by (intro exI [of _ "[]"] exI [of _ w3] conjI disjI1) (simp, blast)
  next
    case True
    obtain l st4 where l: "resolveSeedEndpoints r actual c ?st2 = (l, st4)"
      by (cases "resolveSeedEndpoints r actual c ?st2")
    from resolveSeedEndpoints_calls [OF l] obtain pl where
      c4: "calls st4 = calls st @ ?get #
             [ListEv c [(DatacenterLabel, Name (ObjectMeta actual))] pl]"
      by auto
    let ?list = "ListEv c [(DatacenterLabel, Name (ObjectMeta actual))] pl"
    have st4: "st4 = \<lparr>world = world st4, calls = calls st @ ?get # [?list]\<rparr>"
      using c4 by (cases st4) simp
    show ?thesis
    proof (cases l)
      case (Inl err)
      with at body True l have "Reconcile r req w = ((emptyResult, Some err), st4)"
        by simp
      with st4 have "Reconcile r req w = ((emptyResult, Some err),
          \<lparr>world = world st4, calls = calls st @ ?get # [?list]\<rparr>)"
        by simp
      then show ?thesis
        by (intro exI [of _ "[?list]"] exI [of _ "world st4"] conjI disjI1) (simp, blast)
    next
      case (Inr endpoints)
      obtain u st5 where u: "updateAdditionalSeeds r k8ssandra (?seeds @ endpoints) 0 i st4 = (u, st5)"
        by (cases "updateAdditionalSeeds r k8ssandra (?seeds @ endpoints) 0 i st4")
      from updateAdditionalSeeds_getOrPatch [OF u] obtain gp where
        gp: "calls st5 = calls st4 @ gp" "\<forall>ev \<in> set gp. getOrPatch ev"
        by auto
      have st5: "st5 = \<lparr>world = world st5, calls = calls st @ ?get # (?list # gp)\<rparr>"
        using gp(1) c4 by (cases st5) simp
      have nw: "\<forall>ev \<in> set (?list # gp). \<not> isUpdateOrCreate ev"
        using gp(2) by (simp add: getOrPatch_not_write)
      have r5: "Reconcile r req w =
          (case u of
             Some err \<Rightarrow> ((emptyResult, Some err), st5)
           | None \<Rightarrow> reconcileDatacenters r req k8ssandra cass (Suc i) (?seeds @ endpoints)
                       (drop (Suc i) (Datacenters cass)) st5)"
        using at body True l Inr u by (simp split: option.splits)
      show ?thesis
      proof (cases u)
        case None
        with r5 st5 have "Reconcile r req w =
            reconcileDatacenters r req k8ssandra cass (Suc i) (?seeds @ endpoints)
              (drop (Suc i) (Datacenters cass))
              \<lparr>world = world st5, calls = calls st @ ?get # (?list # gp)\<rparr>"
          by simp
        with nw show ?thesis
          by (intro exI [of _ "?list # gp"] exI [of _ "world st5"] conjI disjI2) blast+
      next
        case (Some err)
        with r5 st5 have "Reconcile r req w = ((emptyResult, Some err),
              \<lparr>world = world st5, calls = calls st @ ?get # (?list # gp)\<rparr>)"
          by simp
        with nw show ?thesis
          by (intro exI [of _ "?list # gp"] exI [of _ "world st5"] conjI disjI1) blast+
      qed
    qed
  qed
qed

text \<open>
  Claim C1, as the code has it. In a pass, every \<^verbatim>\<open>Update\<close> call directly follows a fetch
  on the same client, under the key of the updated object, that answered a resource
  whose hash annotation is absent or different from the fingerprint being written; and
  what is written is the desired form of one of the templates, whose annotation is its
  freshly computed fingerprint. Likewise every \<^verbatim>\<open>Create\<close> call directly follows a fetch
  that answered not-found. Conversely, when the pass reaches a datacenter and fetches
  it with an annotation equal to the fingerprint of its desired form, the calls that
  follow this fetch, up to the end of the pass or to the turn of the next datacenter,
  include neither an \<^verbatim>\<open>Update\<close> nor a \<^verbatim>\<open>Create\<close>. So an absent or unequal annotation is
  the only condition under which an update is issued. The conditional patches of seed
  propagation are another kind of write, which this does not cover.
\<close>

theorem writes_only_after_stale_or_missing_fetch:
  assumes "Client_Get r req w = (Inr k8ssandra, w1)"
    and "Cassandra (kcSpec k8ssandra) = Some cass"
  shows "(\<forall>k < length (calls (snd (Reconcile r req w))).
          (\<forall>c obj a. calls (snd (Reconcile r req w)) ! k = UpdateEv c obj a \<longrightarrow>
            0 < k
          \<and> (\<exists>actual. calls (snd (Reconcile r req w)) ! (k - 1)
                  = GetEv c (NamespacedName (Namespace (ObjectMeta obj)) (Name (ObjectMeta obj)))
                      (Inr actual)
                \<and> Annotations (ObjectMeta actual) resourceHashAnnotation
                    \<noteq> Annotations (ObjectMeta obj) resourceHashAnnotation)
          \<and> (\<exists>t \<in> set (Datacenters cass). \<exists>seeds. obj = desiredDatacenter r req cass t seeds))
       \<and> (\<forall>c obj e. calls (snd (Reconcile r req w)) ! k = CreateEv c obj e \<longrightarrow>
            0 < k
          \<and> calls (snd (Reconcile r req w)) ! (k - 1)
                  = GetEv c (NamespacedName (Namespace (ObjectMeta obj)) (Name (ObjectMeta obj)))
                      (Inl NotFound)
          \<and> (\<exists>t \<in> set (Datacenters cass). \<exists>seeds. obj = desiredDatacenter r req cass t seeds)))
     \<and> (\<forall>i st c w2 actual w3.
          i < length (Datacenters cass) \<longrightarrow>
          reconcileDatacenters r req k8ssandra cass 0 [] (take i (Datacenters cass))
             \<lparr>world = w1, calls = []\<rparr> = ((emptyResult, None), st) \<longrightarrow>
          GetClient r req (K8sContextsSecret (kcSpec k8ssandra)) (K8sContext (Datacenters cass ! i))
             (world st) = (Inr (Some c), w2) \<longrightarrow>
          remoteGet r c (getDatacenterKey (Datacenters cass ! i) req) w2 = (Inr actual, w3) \<longrightarrow>
          Annotations (ObjectMeta actual) resourceHashAnnotation
             = Some (deepHashString r (newDatacenter (nnNamespace req) (Cluster cass)
                       (Datacenters cass ! i) (discovered (calls st)))) \<longrightarrow>
          (\<exists>evs w5.
             (\<forall>ev \<in> set evs. \<not> isUpdateOrCreate ev)
           \<and> ((\<exists>res err. Reconcile r req w =
                  ((res, err),
                   \<lparr>world = w5, calls = calls st @
                      GetEv c (getDatacenterKey (Datacenters cass ! i) req) (Inr actual) # evs\<rparr>))
              \<or> (\<exists>seeds'. Reconcile r req w =
                    reconcileDatacenters r req k8ssandra cass (Suc i) seeds'
                      (drop (Suc i) (Datacenters cass))
                      \<lparr>world = w5, calls = calls st @
                         GetEv c (getDatacenterKey (Datacenters cass ! i) req) (Inr actual) # evs\<rparr>))))"
proof (rule conjI; intro allI impI)
  fix k
  assume k: "k < length (calls (snd (Reconcile r req w)))"
  let ?tr = "calls (snd (Reconcile r req w))"
  have run: "Reconcile r req w =
      reconcileDatacenters r req k8ssandra cass 0 [] (Datacenters cass) \<lparr>world = w1, calls = []\<rparr>"
    using assms(1,2) by (simp add: Reconcile_def)
  obtain res st' where rs: "reconcileDatacenters r req k8ssandra cass 0 [] (Datacenters cass)
       \<lparr>world = w1, calls = []\<rparr> = (res, st')"
    by (cases "reconcileDatacenters r req k8ssandra cass 0 [] (Datacenters cass)
       \<lparr>world = w1, calls = []\<rparr>")
  from reconcileDatacenters_writes [OF rs, of "Datacenters cass"]
  have "eventsFrom (writeJustified r req cass (Datacenters cass)) [] ?tr"
    using run rs by simp
  from eventsFrom_nth [OF this k]
  have j: "writeJustified r req cass (Datacenters cass) (take k ?tr) (?tr ! k)" by simp
  have l: "take k ?tr \<noteq> [] \<Longrightarrow> 0 < k \<and> last (take k ?tr) = ?tr ! (k - 1)"
    using k by (cases k) (simp_all add: take_Suc_conv_app_nth)
  show "(\<forall>c obj a. ?tr ! k = UpdateEv c obj a \<longrightarrow>
            0 < k
          \<and> (\<exists>actual. ?tr ! (k - 1)
                  = GetEv c (NamespacedName (Namespace (ObjectMeta obj)) (Name (ObjectMeta obj)))
                      (Inr actual)
                \<and> Annotations (ObjectMeta actual) resourceHashAnnotation
                    \<noteq> Annotations (ObjectMeta obj) resourceHashAnnotation)
          \<and> (\<exists>t \<in> set (Datacenters cass). \<exists>seeds. obj = desiredDatacenter r req cass t seeds))
       \<and> (\<forall>c obj e. ?tr ! k = CreateEv c obj e \<longrightarrow>
            0 < k
          \<and> ?tr ! (k - 1)
                  = GetEv c (NamespacedName (Namespace (ObjectMeta obj)) (Name (ObjectMeta obj)))
                      (Inl NotFound)
          \<and> (\<exists>t \<in> set (Datacenters cass). \<exists>seeds. obj = desiredDatacenter r req cass t seeds))"
    using j l unfolding writeJustified_def by metis
next
  fix i st c w2 actual w3
  assume "i < length (Datacenters cass)"
    and "reconcileDatacenters r req k8ssandra cass 0 [] (take i (Datacenters cass))
             \<lparr>world = w1, calls = []\<rparr> = ((emptyResult, None), st)"
    and "GetClient r req (K8sContextsSecret (kcSpec k8ssandra)) (K8sContext (Datacenters cass ! i))
             (world st) = (Inr (Some c), w2)"
    and "remoteGet r c (getDatacenterKey (Datacenters cass ! i) req) w2 = (Inr actual, w3)"
    and "Annotations (ObjectMeta actual) resourceHashAnnotation
             = Some (deepHashString r (newDatacenter (nnNamespace req) (Cluster cass)
                       (Datacenters cass ! i) (discovered (calls st))))"
  then show "\<exists>evs w5.
             (\<forall>ev \<in> set evs. \<not> isUpdateOrCreate ev)
           \<and> ((\<exists>res err. Reconcile r req w =
                  ((res, err),
                   \<lparr>world = w5, calls = calls st @
                      GetEv c (getDatacenterKey (Datacenters cass ! i) req) (Inr actual) # evs\<rparr>))
              \<or> (\<exists>seeds'. Reconcile r req w =
                    reconcileDatacenters r req k8ssandra cass (Suc i) seeds'
                      (drop (Suc i) (Datacenters cass))
                      \<lparr>world = w5, calls = calls st @
                         GetEv c (getDatacenterKey (Datacenters cass ! i) req) (Inr actual) # evs\<rparr>))"
    by (rule fresh_fetch_turn [OF assms(1,2)])
qed

theorem writes_only_after_stale_or_missing_fetch_witness:
  "(calls (snd (Reconcile exStale exReq ())) ! 1 =
      UpdateEv 1 (desiredDatacenter exStale exReq (exCassandra [exTemplate ''dc1'' ''a''])
                    (exTemplate ''dc1'' ''a'') [])
        (Inr (desiredDatacenter exStale exReq (exCassandra [exTemplate ''dc1'' ''a''])
                    (exTemplate ''dc1'' ''a'') []))
   \<and> (\<exists>actual. calls (snd (Reconcile exStale exReq ())) ! (1 - 1)
          = GetEv 1 (NamespacedName
               (Namespace (ObjectMeta (desiredDatacenter exStale exReq
                  (exCassandra [exTemplate ''dc1'' ''a'']) (exTemplate ''dc1'' ''a'') [])))
               (Name (ObjectMeta (desiredDatacenter exStale exReq
                  (exCassandra [exTemplate ''dc1'' ''a'']) (exTemplate ''dc1'' ''a'') []))))
              (Inr actual)
        \<and> Annotations (ObjectMeta actual) resourceHashAnnotation
            \<noteq> Annotations (ObjectMeta (desiredDatacenter exStale exReq
                  (exCassandra [exTemplate ''dc1'' ''a'']) (exTemplate ''dc1'' ''a'') []))
                resourceHashAnnotation))
   \<and> (\<exists>evs w5.
         (\<forall>ev \<in> set evs. \<not> isUpdateOrCreate ev)
       \<and> ((\<exists>res err. Reconcile exBothReady exReq () =
              ((res, err),
               \<lparr>world = w5, calls =
                  [GetEv 1 (NamespacedName ''k8ssandra'' ''dc1'')
                     (Inr (exActual ''dc1'' ''5'' zeroHash ''Ready'')),
                   ListEv 1 [(DatacenterLabel, ''dc1'')] (Inr exPods)] @
                  GetEv 2 (NamespacedName ''k8ssandra'' ''dc2'')
                     (Inr (exActual ''dc2'' ''5'' zeroHash ''Ready'')) # evs\<rparr>))
          \<or> (\<exists>seeds'. Reconcile exBothReady exReq () =
                reconcileDatacenters exBothReady exReq exTwoDcs
                  (exCassandra [exTemplate ''dc1'' ''a'', exTemplate ''dc2'' ''bb'']) (Suc 1) seeds'
                  (drop (Suc 1) (Datacenters (exCassandra [exTemplate ''dc1'' ''a'', exTemplate ''dc2'' ''bb''])))
                  \<lparr>world = w5, calls =
                     [GetEv 1 (NamespacedName ''k8ssandra'' ''dc1'')
                        (Inr (exActual ''dc1'' ''5'' zeroHash ''Ready'')),
                      ListEv 1 [(DatacenterLabel, ''dc1'')] (Inr exPods)] @
                     GetEv 2 (NamespacedName ''k8ssandra'' ''dc2'')
                        (Inr (exActual ''dc2'' ''5'' zeroHash ''Ready'')) # evs\<rparr>)))"
proof -
  let ?cass2 = "exCassandra [exTemplate ''dc1'' ''a'', exTemplate ''dc2'' ''bb'']"
  let ?a2 = "exActual ''dc2'' ''5'' zeroHash ''Ready''"
  let ?st = "\<lparr>world = (), calls =
       [GetEv 1 (NamespacedName ''k8ssandra'' ''dc1'')
          (Inr (exActual ''dc1'' ''5'' zeroHash ''Ready'')),
        ListEv 1 [(DatacenterLabel, ''dc1'')] (Inr exPods)]\<rparr>"
  have p1: "Client_Get exStale exReq () = (Inr exOneDc, ())"
    by (simp add: exStale_def exReconciler_sel)
  have p2: "Cassandra (kcSpec exOneDc) = Some (exCassandra [exTemplate ''dc1'' ''a''])"
    by (simp add: exOneDc_def exCluster_def)
  have p3: "1 < length (calls (snd (Reconcile exStale exReq ())))"
    by (simp add: exStale_calls)
  have ev: "calls (snd (Reconcile exStale exReq ())) ! 1 =
      UpdateEv 1 (desiredDatacenter exStale exReq (exCassandra [exTemplate ''dc1'' ''a''])
                    (exTemplate ''dc1'' ''a'') [])
        (Inr (desiredDatacenter exStale exReq (exCassandra [exTemplate ''dc1'' ''a''])
                    (exTemplate ''dc1'' ''a'') []))"
    by (simp add: exStale_calls)
  have s: "exBothReady = exReconciler exTwoDcs
      (\<lambda>key. Inr (exActual (nnName key) ''5'' zeroHash ''Ready'')) (\<lambda>l. exPods)"
    by (simp add: exBothReady_def)
  have q1: "Client_Get exBothReady exReq () = (Inr exTwoDcs, ())"
    by (simp add: s exReconciler_sel)
  have q2: "Cassandra (kcSpec exTwoDcs) = Some ?cass2"
    by (simp add: exTwoDcs_def exCluster_def)
  have q3: "1 < length (Datacenters ?cass2)"
    by (simp add: exCassandra_def)
  have q4: "reconcileDatacenters exBothReady exReq exTwoDcs ?cass2 0 []
        (take 1 (Datacenters ?cass2)) \<lparr>world = (), calls = []\<rparr>
      = ((emptyResult, None), ?st)"
    unfolding s
    by (simp add: exTwoDcs_def run_defs ex_defs exReconciler_sel
        updateAdditionalSeeds.simps Let_def newDatacenter_def)
  have q5: "GetClient exBothReady exReq (K8sContextsSecret (kcSpec exTwoDcs))
      (K8sContext (Datacenters ?cass2 ! 1)) (world ?st) = (Inr (Some 2), ())"
    by (simp add: s exReconciler_sel exCassandra_def exTemplate_def)
  have q6: "remoteGet exBothReady 2 (getDatacenterKey (Datacenters ?cass2 ! 1) exReq) ()
      = (Inr ?a2, ())"
    by (simp add: s exReconciler_sel exCassandra_def exTemplate_def getDatacenterKey_def)
  have q7: "Annotations (ObjectMeta ?a2) resourceHashAnnotation
      = Some (deepHashString exBothReady (newDatacenter (nnNamespace exReq) (Cluster ?cass2)
                (Datacenters ?cass2 ! 1) (discovered (calls ?st))))"
    by (simp add: s exReconciler_sel exActual_def)
  have key: "getDatacenterKey (Datacenters ?cass2 ! 1) exReq = NamespacedName ''k8ssandra'' ''dc2''"
    by (simp add: exCassandra_def exTemplate_def getDatacenterKey_def exReq_def)
  note t1 = writes_only_after_stale_or_missing_fetch [OF p1 p2]
  note t2 = writes_only_after_stale_or_missing_fetch [OF q1 q2]
  from conjunct1 [OF t1, rule_format, OF p3] ev
  have a: "calls (snd (Reconcile exStale exReq ())) ! 1 =
      UpdateEv 1 (desiredDatacenter exStale exReq (exCassandra [exTemplate ''dc1'' ''a''])
                    (exTemplate ''dc1'' ''a'') [])
        (Inr (desiredDatacenter exStale exReq (exCassandra [exTemplate ''dc1'' ''a''])
                    (exTemplate ''dc1'' ''a'') []))
   \<and> (\<exists>actual. calls (snd (Reconcile exStale exReq ())) ! (1 - 1)
          = GetEv 1 (NamespacedName
               (Namespace (ObjectMeta (desiredDatacenter exStale exReq
                  (exCassandra [exTemplate ''dc1'' ''a'']) (exTemplate ''dc1'' ''a'') [])))
               (Name (ObjectMeta (desiredDatacenter exStale exReq
                  (exCassandra [exTemplate ''dc1'' ''a'']) (exTemplate ''dc1'' ''a'') []))))
              (Inr actual)
        \<and> Annotations (ObjectMeta actual) resourceHashAnnotation
            \<noteq> Annotations (ObjectMeta (desiredDatacenter exStale exReq
                  (exCassandra [exTemplate ''dc1'' ''a'']) (exTemplate ''dc1'' ''a'') []))
                resourceHashAnnotation)"
    by blast
  from conjunct2 [OF t2, rule_format, OF q3 q4 q5 q6 q7]
  have b: "\<exists>evs w5.
         (\<forall>ev \<in> set evs. \<not> isUpdateOrCreate ev)
       \<and> ((\<exists>res err. Reconcile exBothReady exReq () =
              ((res, err),
               \<lparr>world = w5, calls = calls ?st @
                  GetEv 2 (NamespacedName ''k8ssandra'' ''dc2'') (Inr ?a2) # evs\<rparr>))
          \<or> (\<exists>seeds'. Reconcile exBothReady exReq () =
                reconcileDatacenters exBothReady exReq exTwoDcs ?cass2 (Suc 1) seeds'
                  (drop (Suc 1) (Datacenters ?cass2))
                  \<lparr>world = w5, calls = calls ?st @
                     GetEv 2 (NamespacedName ''k8ssandra'' ''dc2'') (Inr ?a2) # evs\<rparr>))"
    unfolding key .
  from a b show ?thesis
    unfolding State.simps by (rule conjI)
qed


text \<open>
  The claim as written promises that no write call at all reaches a datacenter whose
  fingerprint is fresh. With two ready datacenters, both fresh, the first one is fetched
  with the annotation equal to the fingerprint of its desired form, and later in the
  same pass its additional seeds are patched through its own client.
\<close>

theorem fresh_datacenter_is_still_patched_counterexample:
  "calls (snd (Reconcile exBothReady exReq ())) ! 0
     = GetEv 1 (NamespacedName ''k8ssandra'' ''dc1'') (Inr (exActual ''dc1'' ''5'' zeroHash ''Ready''))
   \<and> Annotations (ObjectMeta (exActual ''dc1'' ''5'' zeroHash ''Ready'')) resourceHashAnnotation
     = Some (deepHashString exBothReady
               (newDatacenter (nnNamespace exReq) ''test'' (exTemplate ''dc1'' ''a'') []))
   \<and> calls (snd (Reconcile exBothReady exReq ())) ! 5
     = PatchEv 1
         ((exActual ''dc1'' ''5'' zeroHash ''Ready'')
            \<lparr>Spec := (Spec (exActual ''dc1'' ''5'' zeroHash ''Ready''))
               \<lparr>AdditionalSeeds := [''10.0.0.1'', [], ''10.0.0.3'', ''10.0.0.1'', [], ''10.0.0.3'']\<rparr>\<rparr>)
         \<lparr>From = exActual ''dc1'' ''5'' zeroHash ''Ready'', OptimisticLock = True\<rparr> None"
proof -
  have "calls (snd (Reconcile exBothReady exReq ())) =
     [GetEv 1 (NamespacedName ''k8ssandra'' ''dc1'') (Inr (exActual ''dc1'' ''5'' zeroHash ''Ready'')),
      ListEv 1 [(DatacenterLabel, ''dc1'')] (Inr exPods),
      GetEv 2 (NamespacedName ''k8ssandra'' ''dc2'') (Inr (exActual ''dc2'' ''5'' zeroHash ''Ready'')),
      ListEv 2 [(DatacenterLabel, ''dc2'')] (Inr exPods),
      GetEv 1 (NamespacedName ''k8ssandra'' ''dc1'') (Inr (exActual ''dc1'' ''5'' zeroHash ''Ready'')),
      PatchEv 1
         ((exActual ''dc1'' ''5'' zeroHash ''Ready'')
            \<lparr>Spec := (Spec (exActual ''dc1'' ''5'' zeroHash ''Ready''))
               \<lparr>AdditionalSeeds := [''10.0.0.1'', [], ''10.0.0.3'', ''10.0.0.1'', [], ''10.0.0.3'']\<rparr>\<rparr>)
         \<lparr>From = exActual ''dc1'' ''5'' zeroHash ''Ready'', OptimisticLock = True\<rparr> None]"
    by (simp add: exBothReady_def run_defs ex_defs exReconciler_sel updateAdditionalSeeds.simps
        Let_def newDatacenter_def)
  then show ?thesis
    by (simp add: exBothReady_def exReconciler_sel) (simp add: exActual_def)
qed


section \<open>Seeds flow from earlier datacenters only\<close>

lemma seedsFromEarlier_getOrPatch: "getOrPatch ev \<Longrightarrow> seedsFromEarlier r req cass templates pre ev"
  by (cases ev) (simp_all add: seedsFromEarlier_def)

lemma seedsFromEarlier_other [simp]:
  "seedsFromEarlier r req cass templates pre (GetEv c key a)"
  "seedsFromEarlier r req cass templates pre (ListEv c l b)"
  by (simp_all add: seedsFromEarlier_def)

lemma getDatacenterKey_name [simp]: "nnName (getDatacenterKey t req) = metaName (Meta t)"
  by (simp add: getDatacenterKey_def)

lemma desiredDatacenter_Name [simp]:
  "Name (ObjectMeta (desiredDatacenter r req cass t seeds)) = metaName (Meta t)"
  by (simp add: desiredDatacenter_def newDatacenter_def Let_def)

lemma reconcileDatacenter_seeds:
  assumes run: "reconcileDatacenter r req k cass i t seeds st = (out, st1)"
    and seeds: "discovered (calls st) = seeds"
    and labels: "listLabels (calls st) = map datacenterLabels (take i templates)"
    and i: "i < length templates" "templates ! i = t"
    and named: "\<forall>ev \<in> set (calls st1). answersNamed ev"
  shows "\<exists>evs. calls st1 = calls st @ evs
           \<and> eventsFrom (seedsFromEarlier r req cass templates) (calls st) evs
           \<and> (\<forall>seeds'. out = Continue seeds' \<longrightarrow>
                 discovered (calls st1) = seeds'
               \<and> listLabels (calls st1) = map datacenterLabels (take (Suc i) templates))"
proof -
  let ?d = "desiredDatacenter r req cass t seeds"
  have w: "seedsFromEarlier r req cass templates (calls st @ [GetEv c key a]) ev"
    if "ev = CreateEv c' ?d e \<or> ev = UpdateEv c' ?d b" for c key a ev c' e b
    unfolding seedsFromEarlier_def
    using that seeds labels i by auto
  have conv: "eventsFrom (seedsFromEarlier r req cass templates) (calls st) pre
        \<and> discovered pre = [] \<and> listLabels pre = []
        \<and> ((\<forall>ev \<in> set pre. answersNamed ev) \<longrightarrow> Name (ObjectMeta actual') = metaName (Meta t))"
    if "converged c (getDatacenterKey t req) ?d actual' pre" for c actual' pre
    using that w by (auto simp: converged_def)
  from run show ?thesis
  proof (cases rule: reconcileDatacenter_cases)
    case no_client
    then show ?thesis by auto
  next
    case (get_failed c e)
    then show ?thesis by auto
  next
    case (created c e)
    with w show ?thesis by auto
  next
    case (update_failed c actual e)
    with w show ?thesis by auto
  next
    case (not_ready c actual' pre)
    with conv [OF not_ready(1)] show ?thesis by auto
  next
    case (list_failed c actual' pre e)
    with conv [OF list_failed(1)] show ?thesis
      by (auto simp: eventsFrom_append)
  next
    case (discovered c actual' pre pods gp)
    note cv = conv [OF discovered(1)]
    from named discovered(2) have "\<forall>ev \<in> set pre. answersNamed ev" by simp
    with cv have name: "Name (ObjectMeta actual') = metaName (Meta t)" by blast
    have gp: "discovered gp = []" "listLabels gp = []"
      "eventsFrom (seedsFromEarlier r req cass templates)
         ((calls st @ pre) @ [ListEv c [(DatacenterLabel, Name (ObjectMeta actual'))] (Inr pods)]) gp"
      using discovered(3)
      by (simp_all add: getOrPatch_discovered eventsFrom_getOrPatch seedsFromEarlier_getOrPatch)
    have ev: "eventsFrom (seedsFromEarlier r req cass templates) (calls st)
        (pre @ ListEv c [(DatacenterLabel, Name (ObjectMeta actual'))] (Inr pods) # gp)"
      using cv gp(3) by (simp add: eventsFrom_append)
    have d: "discovered (calls st1) = seeds @ appendPodIPs [] pods"
      using discovered(2) cv gp seeds by simp
    have l: "listLabels (calls st1) = map datacenterLabels (take (Suc i) templates)"
      using discovered(2) cv gp labels i name
      by (simp add: take_Suc_conv_app_nth datacenterLabels_def)
    from discovered(4) d l have "\<forall>seeds'. out = Continue seeds' \<longrightarrow>
                 discovered (calls st1) = seeds'
               \<and> listLabels (calls st1) = map datacenterLabels (take (Suc i) templates)"
      by auto
    with discovered(2) ev show ?thesis by blast
  qed
qed

lemma reconcileDatacenters_seeds:
  "reconcileDatacenters r req k cass i seeds ts st = (res, st') \<Longrightarrow>
   drop i templates = ts \<Longrightarrow>
   discovered (calls st) = seeds \<Longrightarrow>
   listLabels (calls st) = map datacenterLabels (take i templates) \<Longrightarrow>
   \<forall>ev \<in> set (calls st'). answersNamed ev \<Longrightarrow>
   \<exists>evs. calls st' = calls st @ evs
      \<and> eventsFrom (seedsFromEarlier r req cass templates) (calls st) evs"
proof (induction ts arbitrary: i seeds st)
  case Nil
  then show ?case by simp
next
  case (Cons t ts)
  obtain out st1 where b: "reconcileDatacenter r req k cass i t seeds st = (out, st1)"
    by (cases "reconcileDatacenter r req k cass i t seeds st")
  from Cons.prems(2) have i: "i < length templates"
    by (cases "i < length templates") simp_all
  with Cons.prems(2) have ti: "templates ! i = t" "drop (Suc i) templates = ts"
    by (simp_all add: Cons_nth_drop_Suc [symmetric])
  show ?case
  proof (cases out)
    case (Return x y)
    with Cons.prems(1) b have st': "st' = st1" by simp
    from reconcileDatacenter_seeds [OF b Cons.prems(3,4) i ti(1)] Cons.prems(5) st'
    show ?thesis by blast
  next
    case (Continue seeds')
    with Cons.prems(1) b
    have rest: "reconcileDatacenters r req k cass (Suc i) seeds' ts st1 = (res, st')" by simp
    from reconcileDatacenters_extends [OF rest] Cons.prems(5)
    have named: "\<forall>ev \<in> set (calls st1). answersNamed ev" by auto
    from reconcileDatacenter_seeds [OF b Cons.prems(3,4) i ti(1) named] Continue
    obtain evs where evs: "calls st1 = calls st @ evs"
      "eventsFrom (seedsFromEarlier r req cass templates) (calls st) evs"
      "discovered (calls st1) = seeds'"
      "listLabels (calls st1) = map datacenterLabels (take (Suc i) templates)"
      by blast
    from Cons.IH [OF rest ti(2) evs(3,4) Cons.prems(5)]
    obtain evs2 where "calls st' = calls st1 @ evs2"
      "eventsFrom (seedsFromEarlier r req cass templates) (calls st1) evs2"
      by blast
    with evs(1,2) have "calls st' = calls st @ (evs @ evs2)
       \<and> eventsFrom (seedsFromEarlier r req cass templates) (calls st) (evs @ evs2)"
      by (simp add: eventsFrom_append)
    then show ?thesis by blast
  qed
qed

text \<open>
  Claim C3. Take any pass over any list of templates in which the remote clusters answer
  datacenters under the names asked for. Whenever the pass creates or updates a
  datacenter, the object written is the desired form of the template at some position
  \<open>i\<close>, built with exactly the seeds discovered by the list calls made before that
  write; and those list calls are, in order, the discovery calls for the datacenters of
  the templates at positions \<open>0, \<dots>, i - 1\<close>, one for each. So the additional seeds of
  the datacenter at position \<open>i\<close> come from positions strictly below \<open>i\<close>, and no
  datacenter at a later position has contributed to them: none has been listed yet.
\<close>

theorem desired_seeds_come_from_earlier_datacenters:
  assumes "Client_Get r req w = (Inr k8ssandra, w1)"
    and "Cassandra (kcSpec k8ssandra) = Some cass"
    and "\<forall>ev \<in> set (calls (snd (Reconcile r req w))). answersNamed ev"
    and "k < length (calls (snd (Reconcile r req w)))"
    and "calls (snd (Reconcile r req w)) ! k = CreateEv c obj e
       \<or> calls (snd (Reconcile r req w)) ! k = UpdateEv c obj a"
  shows "\<exists>i < length (Datacenters cass).
            obj = desiredDatacenter r req cass (Datacenters cass ! i)
                    (discovered (take k (calls (snd (Reconcile r req w)))))
          \<and> AdditionalSeeds (Spec obj) = discovered (take k (calls (snd (Reconcile r req w))))
          \<and> listLabels (take k (calls (snd (Reconcile r req w))))
              = map datacenterLabels (take i (Datacenters cass))"
proof -
  let ?tr = "calls (snd (Reconcile r req w))"
  have run: "Reconcile r req w =
      reconcileDatacenters r req k8ssandra cass 0 [] (Datacenters cass) \<lparr>world = w1, calls = []\<rparr>"
    using assms(1,2) by (simp add: Reconcile_def)
  obtain res st' where rs: "reconcileDatacenters r req k8ssandra cass 0 [] (Datacenters cass)
       \<lparr>world = w1, calls = []\<rparr> = (res, st')"
    by (cases "reconcileDatacenters r req k8ssandra cass 0 [] (Datacenters cass)
       \<lparr>world = w1, calls = []\<rparr>")
  have "\<exists>evs. calls st' = calls \<lparr>world = w1, calls = []\<rparr> @ evs
      \<and> eventsFrom (seedsFromEarlier r req cass (Datacenters cass))
           (calls \<lparr>world = w1, calls = []\<rparr>) evs"
    using assms(3) run rs
    by (intro reconcileDatacenters_seeds [OF rs]) simp_all
  then have "eventsFrom (seedsFromEarlier r req cass (Datacenters cass)) [] ?tr"
    using run rs by simp
  from eventsFrom_nth [OF this assms(4)]
  have "seedsFromEarlier r req cass (Datacenters cass) (take k ?tr) (?tr ! k)" by simp
  with assms(5) obtain i where i: "i < length (Datacenters cass)"
    "obj = desiredDatacenter r req cass (Datacenters cass ! i) (discovered (take k ?tr))"
    "listLabels (take k ?tr) = map datacenterLabels (take i (Datacenters cass))"
    unfolding seedsFromEarlier_def by blast
  from i(2) have "AdditionalSeeds (Spec obj) = discovered (take k ?tr)"
    by (simp add: desiredDatacenter_Spec newDatacenter_def Let_def)
  with i show ?thesis by blast
qed

theorem desired_seeds_come_from_earlier_datacenters_witness:
  "calls (snd (Reconcile exSecondAbsent exReq ())) ! 3
     = CreateEv 2 (desiredDatacenter exSecondAbsent exReq
                    (exCassandra [exTemplate ''dc1'' ''a'', exTemplate ''dc2'' ''bb''])
                    (exTemplate ''dc2'' ''bb'') [''10.0.0.1'', ''10.0.0.2'']) None
   \<and> (\<exists>i < length (Datacenters (exCassandra [exTemplate ''dc1'' ''a'', exTemplate ''dc2'' ''bb''])).
          desiredDatacenter exSecondAbsent exReq
                    (exCassandra [exTemplate ''dc1'' ''a'', exTemplate ''dc2'' ''bb''])
                    (exTemplate ''dc2'' ''bb'') [''10.0.0.1'', ''10.0.0.2'']
            = desiredDatacenter exSecondAbsent exReq
                (exCassandra [exTemplate ''dc1'' ''a'', exTemplate ''dc2'' ''bb''])
                (Datacenters (exCassandra [exTemplate ''dc1'' ''a'', exTemplate ''dc2'' ''bb'']) ! i)
                (discovered (take 3 (calls (snd (Reconcile exSecondAbsent exReq ())))))
        \<and> AdditionalSeeds (Spec (desiredDatacenter exSecondAbsent exReq
                    (exCassandra [exTemplate ''dc1'' ''a'', exTemplate ''dc2'' ''bb''])
                    (exTemplate ''dc2'' ''bb'') [''10.0.0.1'', ''10.0.0.2'']))
            = discovered (take 3 (calls (snd (Reconcile exSecondAbsent exReq ()))))
        \<and> listLabels (take 3 (calls (snd (Reconcile exSecondAbsent exReq ()))))
            = map datacenterLabels
                (take i (Datacenters (exCassandra [exTemplate ''dc1'' ''a'', exTemplate ''dc2'' ''bb'']))))
   \<and> discovered (take 3 (calls (snd (Reconcile exSecondAbsent exReq ()))))
       = [''10.0.0.1'', ''10.0.0.2'']"
proof -
  have p1: "Client_Get exSecondAbsent exReq () = (Inr exTwoDcs, ())"
    by (simp add: exSecondAbsent_def exReconciler_sel)
  have p2: "Cassandra (kcSpec exTwoDcs)
      = Some (exCassandra [exTemplate ''dc1'' ''a'', exTemplate ''dc2'' ''bb''])"
    by (simp add: exTwoDcs_def exCluster_def)
  have p3: "\<forall>ev \<in> set (calls (snd (Reconcile exSecondAbsent exReq ()))). answersNamed ev"
    by (simp add: exSecondAbsent_calls exActual_def)
  have p4: "3 < length (calls (snd (Reconcile exSecondAbsent exReq ())))"
    by (simp add: exSecondAbsent_calls)
  have ev: "calls (snd (Reconcile exSecondAbsent exReq ())) ! 3
     = CreateEv 2 (desiredDatacenter exSecondAbsent exReq
                    (exCassandra [exTemplate ''dc1'' ''a'', exTemplate ''dc2'' ''bb''])
                    (exTemplate ''dc2'' ''bb'') [''10.0.0.1'', ''10.0.0.2'']) None"
    by (simp add: exSecondAbsent_calls)
  have d: "discovered (take 3 (calls (snd (Reconcile exSecondAbsent exReq ()))))
       = [''10.0.0.1'', ''10.0.0.2'']"
    by (simp add: exSecondAbsent_calls Let_def)
  from desired_seeds_come_from_earlier_datacenters [OF p1 p2 p3 p4 disjI1, OF ev] ev d
  show ?thesis by blast
qed


end
